theory Spec2Isabelle
  imports Complex_Main
begin

section \<open>Python strings\<close>

text \<open>
  A Python \<open>str\<close> is modelled as a HOL \<open>string\<close>; its characters are the code points
  below 256. \<open>isspace\<close> is the whitespace test used by \<open>str.split()\<close>, \<open>str.strip()\<close>
  and the regular-expression class \<open>\s\<close> on \<open>str\<close> patterns, restricted to that range.
\<close>

definition isspace :: "char \<Rightarrow> bool" where
  "isspace c = ((of_char c :: nat) \<in> {9, 10, 11, 12, 13, 28, 29, 30, 31, 32, 133, 160})"

definition newline :: char where
  "newline = CHR 0x0A"

definition lstrip :: "string \<Rightarrow> string" where
  "lstrip s = dropWhile isspace s"

definition rstrip :: "string \<Rightarrow> string" where
  "rstrip s = rev (dropWhile isspace (rev s))"

definition strip :: "string \<Rightarrow> string" where
  "strip s = rstrip (lstrip s)"

definition startswith :: "string \<Rightarrow> string \<Rightarrow> bool" where
  "startswith p s = (take (length p) s = p)"

definition endswith :: "string \<Rightarrow> string \<Rightarrow> bool" where
  "endswith p s = (length p \<le> length s \<and> drop (length s - length p) s = p)"

text \<open>\<open>s.split()\<close>: the maximal runs of non-whitespace characters, in order.\<close>

fun split_words :: "string \<Rightarrow> string \<Rightarrow> string list" where
  "split_words cur [] = (if cur = [] then [] else [cur])"
| "split_words cur (c # cs) =
     (if isspace c
      then (if cur = [] then split_words [] cs else cur # split_words [] cs)
      else split_words (cur @ [c]) cs)"

definition str_split :: "string \<Rightarrow> string list" where
  "str_split s = split_words [] s"

text \<open>\<open>str(n)\<close> for integers, as the f-strings of the source format them.\<close>

definition digits :: string where
  "digits = ''0123456789''"

fun str_nat :: "nat \<Rightarrow> string" where
  "str_nat n = (if n < 10 then [digits ! n] else str_nat (n div 10) @ [digits ! (n mod 10)])"

declare str_nat.simps [simp del]

definition str_int :: "int \<Rightarrow> string" where
  "str_int i = (if i < 0 then ''-'' @ str_nat (nat (- i)) else str_nat (nat i))"

text \<open>\<open>sep.join(xs)\<close>.\<close>

fun join :: "string \<Rightarrow> string list \<Rightarrow> string" where
  "join sep [] = []"
| "join sep [x] = x"
| "join sep (x # y # ys) = x @ sep @ join sep (y # ys)"

section \<open>Content validator (validator.py)\<close>

record validation_result =
  valid :: bool
  errors :: "string list"
  warnings :: "string list"
  metrics :: "(string \<times> int) list"

definition MIN_WORD_COUNT :: int where "MIN_WORD_COUNT = 800"
definition MAX_WORD_COUNT :: int where "MAX_WORD_COUNT = 1200"
definition MIN_READING_TIME :: int where "MIN_READING_TIME = 5"
definition MAX_READING_TIME :: int where "MAX_READING_TIME = 7"
definition AVERAGE_READING_SPEED :: int where "AVERAGE_READING_SPEED = 200"

subsection \<open>validate_summary\<close>

text \<open>
  The body of the loop \<open>for i, takeaway in enumerate(takeaways, start=1)\<close>, threading the
  two lists the source appends to.
\<close>

fun summary_loop ::
  "nat \<Rightarrow> string list \<Rightarrow> string list \<times> string list \<Rightarrow> string list \<times> string list" where
  "summary_loop i [] (errs, warns) = (errs, warns)"
| "summary_loop i (takeaway # rest) (errs, warns) =
     (let len = length takeaway;
          (errs1, warns1) =
            (if len < 50
             then (errs @ [''Takeaway '' @ str_nat i @ '' too short: '' @ str_nat len
                            @ '' chars (minimum 50)''], warns)
             else if len > 150
             then (errs, warns @ [''Takeaway '' @ str_nat i @ '' too long: '' @ str_nat len
                            @ '' chars (recommended max 150)''])
             else (errs, warns));
          errs2 = (if strip takeaway = []
                   then errs1 @ [''Takeaway '' @ str_nat i @ '' is empty'']
                   else errs1)
      in summary_loop (Suc i) rest (errs2, warns1))"

definition validate_summary :: "string list \<Rightarrow> int \<Rightarrow> int \<Rightarrow> validation_result" where
  "validate_summary takeaways min_count max_count =
     (let n = int (length takeaways);
          errs0 =
            (if n < min_count
             then [''Too few takeaways: '' @ str_int n @ '' (minimum '' @ str_int min_count @ '')'']
             else if n > max_count
             then [''Too many takeaways: '' @ str_int n @ '' (maximum '' @ str_int max_count @ '')'']
             else []);
          (errs, warns) = summary_loop 1 takeaways (errs0, [])
      in \<lparr> valid = (length errs = 0), errors = errs, warnings = warns,
           metrics = [(''takeaway_count'', n)] \<rparr>)"

text \<open>
  The entries one takeaway contributes, and the lists the loop builds from them; used to
  reason about \<open>summary_loop\<close>.
\<close>

definition takeaway_errors :: "nat \<Rightarrow> string \<Rightarrow> string list" where
  "takeaway_errors i t =
     (if length t < 50
      then [''Takeaway '' @ str_nat i @ '' too short: '' @ str_nat (length t) @ '' chars (minimum 50)'']
      else [])
     @ (if strip t = [] then [''Takeaway '' @ str_nat i @ '' is empty''] else [])"

definition takeaway_warnings :: "nat \<Rightarrow> string \<Rightarrow> string list" where
  "takeaway_warnings i t =
     (if \<not> length t < 50 \<and> length t > 150
      then [''Takeaway '' @ str_nat i @ '' too long: '' @ str_nat (length t) @ '' chars (recommended max 150)'']
      else [])"

fun summary_errors :: "nat \<Rightarrow> string list \<Rightarrow> string list" where
  "summary_errors i [] = []"
| "summary_errors i (t # ts) = takeaway_errors i t @ summary_errors (Suc i) ts"

fun summary_warnings :: "nat \<Rightarrow> string list \<Rightarrow> string list" where
  "summary_warnings i [] = []"
| "summary_warnings i (t # ts) = takeaway_warnings i t @ summary_warnings (Suc i) ts"

subsection \<open>_count_words\<close>

text \<open>
  \<open>re.sub(r"```[\s\S]*?```", "", content)\<close>: at each position, left to right, a fence opener
  followed (lazily) by the nearest closing fence is deleted and the scan resumes behind it;
  where no match starts, the character is kept.
\<close>

definition backtick :: char where
  "backtick = CHR 0x60"

definition fence :: string where
  "fence = [backtick, backtick, backtick]"

fun find_fence_close :: "string \<Rightarrow> string option" where
  "find_fence_close [] = None"
| "find_fence_close (c # cs) =
     (if startswith fence (c # cs) then Some (drop 3 (c # cs)) else find_fence_close cs)"

lemma find_fence_close_length:
  "find_fence_close s = Some r \<Longrightarrow> length r \<le> length s"
  by (induction s) (auto split: if_splits)

function sub_code_fences :: "string \<Rightarrow> string" where
  "sub_code_fences [] = []"
| "sub_code_fences (c # cs) =
     (if startswith fence (c # cs)
      then (case find_fence_close (drop 3 (c # cs)) of
              Some rest \<Rightarrow> sub_code_fences rest
            | None \<Rightarrow> c # sub_code_fences cs)
      else c # sub_code_fences cs)"
  by pat_completeness auto
termination
proof (relation "measure length")
  fix c cs rest
  assume "find_fence_close (drop 3 (c # cs)) = Some rest"
  then have "length rest \<le> length (drop 3 (c # cs))"
    by (rule find_fence_close_length)
  then show "(rest, c # cs) \<in> measure length" by simp
qed simp_all

text \<open>
  \<open>re.sub(r"`[^`]+`", "", ...)\<close>: a backtick, a non-empty maximal run of other characters
  and a closing backtick.
\<close>

function sub_inline_code :: "string \<Rightarrow> string" where
  "sub_inline_code [] = []"
| "sub_inline_code (c # cs) =
     (if c = backtick \<and> takeWhile (\<lambda>x. x \<noteq> backtick) cs \<noteq> []
         \<and> dropWhile (\<lambda>x. x \<noteq> backtick) cs \<noteq> []
      then sub_inline_code (tl (dropWhile (\<lambda>x. x \<noteq> backtick) cs))
      else c # sub_inline_code cs)"
  by pat_completeness auto
termination
proof (relation "measure length")
  fix c :: char and cs :: string
  have "length (dropWhile (\<lambda>x. x \<noteq> backtick) cs) \<le> length cs"
    by (rule length_dropWhile_le)
  then have "length (tl (dropWhile (\<lambda>x. x \<noteq> backtick) cs)) \<le> length cs"
    by simp
  then show "(tl (dropWhile (\<lambda>x. x \<noteq> backtick) cs), c # cs) \<in> measure length" by simp
qed simp_all

text \<open>\<open>re.sub(r"[#*_\[\]()!]", "", ...)\<close>.\<close>

definition markdown_syntax_chars :: "char list" where
  "markdown_syntax_chars = ''#*_[]()!''"

definition sub_markdown_syntax :: "string \<Rightarrow> string" where
  "sub_markdown_syntax s = filter (\<lambda>c. c \<notin> set markdown_syntax_chars) s"

definition validator_count_words :: "string \<Rightarrow> int" where
  "validator_count_words content =
     (let content_no_code = sub_inline_code (sub_code_fences content);
          content_no_markdown = sub_markdown_syntax content_no_code;
          words = str_split content_no_markdown
      in int (length words))"

subsection \<open>Line-anchored patterns\<close>

text \<open>
  The tail \<open>\s+.+$\<close> (MULTILINE, not DOTALL) matched against the input behind the line's
  lead. \<open>\s+\<close> first takes the whole whitespace run and gives characters back one at a time;
  \<open>.+\<close> needs a first character that is not a newline and then runs to the end of that
  line, where \<open>$\<close> holds. The result is the input left behind the match.
\<close>

fun match_tail_try :: "nat \<Rightarrow> string \<Rightarrow> string option" where
  "match_tail_try 0 rest = None"
| "match_tail_try (Suc k) rest =
     (case drop (Suc k) rest of
        [] \<Rightarrow> match_tail_try k rest
      | c # cs \<Rightarrow>
          if c \<noteq> newline then Some (dropWhile (\<lambda>x. x \<noteq> newline) (c # cs))
          else match_tail_try k rest)"

definition match_space_text_eol :: "string \<Rightarrow> string option" where
  "match_space_text_eol rest = match_tail_try (length (takeWhile isspace rest)) rest"

text \<open>The lead of a line pattern: a literal (\<open>#\<close>, \<open>##\<close>) or one character of a class (\<open>[-*]\<close>).\<close>

datatype line_lead = Lit string | Class "char list"

fun strip_lead :: "line_lead \<Rightarrow> string \<Rightarrow> string option" where
  "strip_lead (Lit p) s = (if startswith p s then Some (drop (length p) s) else None)"
| "strip_lead (Class cl) [] = None"
| "strip_lead (Class cl) (c # cs) = (if c \<in> set cl then Some cs else None)"

definition match_line :: "line_lead \<Rightarrow> string \<Rightarrow> string option" where
  "match_line lead s =
     (case strip_lead lead s of None \<Rightarrow> None | Some rest \<Rightarrow> match_space_text_eol rest)"

lemma match_tail_try_length:
  "match_tail_try k rest = Some r \<Longrightarrow> length r < length rest"
proof (induction k)
  case 0
  then show ?case by simp
next
  case (Suc k)
  show ?case
  proof (cases "drop (Suc k) rest")
    case Nil
    with Suc show ?thesis by simp
  next
    case (Cons c cs)
    have len: "length (c # cs) \<le> length rest - Suc k"
      using Cons [symmetric] by simp
    show ?thesis
    proof (cases "c = newline")
      case True
      with Suc Cons show ?thesis by simp
    next
      case False
      with Suc.prems Cons have "r = dropWhile (\<lambda>x. x \<noteq> newline) cs" by simp
      then have "length r \<le> length cs" by (simp add: length_dropWhile_le)
      with len show ?thesis by simp
    qed
  qed
qed

lemma strip_lead_length:
  "strip_lead lead s = Some r \<Longrightarrow> length r \<le> length s"
  by (cases lead; cases s) (auto split: if_splits)

lemma match_line_length:
  "match_line lead s = Some r \<Longrightarrow> length r < length s"
  unfolding match_line_def match_space_text_eol_def
  by (auto split: option.splits dest!: strip_lead_length match_tail_try_length)

text \<open>
  \<open>len(pattern.findall(content))\<close> for \<open>^lead\s+.+$\<close> with \<open>re.MULTILINE\<close>: the number of
  non-overlapping matches found scanning left to right. \<open>bol\<close> says whether the current
  position is the start of the text or follows a newline, which is where \<open>^\<close> holds.
\<close>

function count_line_matches :: "line_lead \<Rightarrow> bool \<Rightarrow> string \<Rightarrow> nat" where
  "count_line_matches lead bol [] = 0"
| "count_line_matches lead bol (c # cs) =
     (case (if bol then match_line lead (c # cs) else None) of
        Some rest \<Rightarrow> Suc (count_line_matches lead False rest)
      | None \<Rightarrow> count_line_matches lead (c = newline) cs)"
  by pat_completeness auto
termination
  by (relation "measure (\<lambda>(lead, bol, s). length s)")
     (auto split: if_splits dest: match_line_length)

subsection \<open>_validate_markdown_syntax, _validate_structure\<close>

text \<open>
  The markdown-it parser is a library outside the repository. \<open>md_parse content\<close> stands
  for \<open>self.md_parser.parse(content)\<close>: \<open>Inr n\<close> when it returns \<open>n\<close> tokens, \<open>Inl msg\<close> when
  it raises an exception whose text is \<open>msg\<close>.
\<close>

type_synonym md_parser = "string \<Rightarrow> string + nat"

definition validate_markdown_syntax :: "md_parser \<Rightarrow> string \<Rightarrow> string list" where
  "validate_markdown_syntax md_parse content =
     (case md_parse content of
        Inr n \<Rightarrow> (if n = 0 then [''Failed to parse markdown (empty token list)''] else [])
      | Inl e \<Rightarrow> [''Markdown syntax error: '' @ e])"

definition h1_count :: "string \<Rightarrow> nat" where
  "h1_count content = count_line_matches (Lit ''#'') True content"

definition h2_count :: "string \<Rightarrow> nat" where
  "h2_count content = count_line_matches (Lit ''##'') True content"

definition validate_structure :: "string \<Rightarrow> string list" where
  "validate_structure content =
     (if h1_count content = 0 then [''Missing H1 heading (chapter title)'']
      else if h1_count content > 1
      then [''Multiple H1 headings found ('' @ str_nat (h1_count content) @ ''), expected 1'']
      else [])
     @ (if h2_count content = 0
        then [''No H2 sections found (chapter should have sections)'']
        else [])"

subsection \<open>_validate_word_count, _calculate_reading_time, _validate_reading_time\<close>

definition validate_word_count :: "int \<Rightarrow> string list" where
  "validate_word_count word_count =
     (if word_count < MIN_WORD_COUNT
      then [''Word count too low: '' @ str_int word_count
            @ '' (minimum '' @ str_int MIN_WORD_COUNT @ '')'']
      else if word_count > MAX_WORD_COUNT
      then [''Word count too high: '' @ str_int word_count
            @ '' (maximum '' @ str_int MAX_WORD_COUNT @ '')'']
      else [])"

text \<open>
  \<open>round(n / d)\<close> for integers with \<open>d > 0\<close>: Python rounds the quotient to the nearest
  integer and a tie to the even neighbour. The quotient is taken exactly; the float
  quotient agrees with it on every count a text can have.
\<close>

definition py_round_div :: "int \<Rightarrow> int \<Rightarrow> int" where
  "py_round_div n d =
     (let q = n div d; r = n mod d
      in if 2 * r < d then q
         else if 2 * r > d then q + 1
         else if even q then q else q + 1)"

definition calculate_reading_time :: "int \<Rightarrow> int" where
  "calculate_reading_time word_count = py_round_div word_count AVERAGE_READING_SPEED"

definition validate_reading_time :: "int \<Rightarrow> string list" where
  "validate_reading_time reading_time =
     (if reading_time < MIN_READING_TIME
      then [''Reading time too short: '' @ str_int reading_time
            @ '' min (minimum '' @ str_int MIN_READING_TIME @ '')'']
      else if reading_time > MAX_READING_TIME
      then [''Reading time too long: '' @ str_int reading_time
            @ '' min (maximum '' @ str_int MAX_READING_TIME @ '')'']
      else [])"

subsection \<open>_extract_learning_objectives\<close>

text \<open>
  The pattern \<open>##\s*Learning Objectives?\s*\n(.*?)(?=\n##|\Z)\<close> with IGNORECASE and DOTALL.
  On code points below 256 the letters of the literal match exactly their two ASCII cases.
\<close>

definition to_lower :: "char \<Rightarrow> char" where
  "to_lower c =
     (if (65::nat) \<le> of_char c \<and> of_char c \<le> (90::nat) then char_of (of_char c + (32::nat)) else c)"

fun imatch :: "string \<Rightarrow> string \<Rightarrow> string option" where
  "imatch [] s = Some s"
| "imatch (p # ps) [] = None"
| "imatch (p # ps) (c # cs) = (if to_lower c = p then imatch ps cs else None)"

text \<open>\<open>\s*\n\<close>: the whitespace run is given back until a newline stands behind it.\<close>

fun ws_newline_try :: "nat \<Rightarrow> string \<Rightarrow> string option" where
  "ws_newline_try 0 r =
     (case r of [] \<Rightarrow> None | c # cs \<Rightarrow> if c = newline then Some cs else None)"
| "ws_newline_try (Suc k) r =
     (case drop (Suc k) r of
        [] \<Rightarrow> ws_newline_try k r
      | c # cs \<Rightarrow> if c = newline then Some cs else ws_newline_try k r)"

definition match_ws_newline :: "string \<Rightarrow> string option" where
  "match_ws_newline r = ws_newline_try (length (takeWhile isspace r)) r"

text \<open>
  The header of the section at the current position; the result is the input behind the
  header's newline. The optional \<open>s\<close> is tried first, then skipped.
\<close>

definition match_objectives_header :: "string \<Rightarrow> string option" where
  "match_objectives_header s =
     (if startswith ''##'' s
      then (case imatch ''learning objective'' (dropWhile isspace (drop 2 s)) of
              None \<Rightarrow> None
            | Some r \<Rightarrow>
                (case (case r of
                         c # cs \<Rightarrow> if to_lower c = CHR ''s'' then match_ws_newline cs else None
                       | [] \<Rightarrow> None) of
                   Some t \<Rightarrow> Some t
                 | None \<Rightarrow> match_ws_newline r))
      else None)"

text \<open>The lazy group \<open>(.*?)\<close> up to the lookahead \<open>(?=\n##|\Z)\<close>.\<close>

fun take_section :: "string \<Rightarrow> string" where
  "take_section [] = []"
| "take_section (c # cs) =
     (if startswith (newline # ''##'') (c # cs) then [] else c # take_section cs)"

fun search_objectives :: "string \<Rightarrow> string option" where
  "search_objectives [] = None"
| "search_objectives (c # cs) =
     (case match_objectives_header (c # cs) of
        Some t \<Rightarrow> Some (take_section t)
      | None \<Rightarrow> search_objectives cs)"

text \<open>
  The number of list items \<open>re.findall(r"^[-*]\s+(.+)$", section, re.MULTILINE)\<close> returns;
  0 when the section is not found.
\<close>

definition learning_objectives_count :: "string \<Rightarrow> nat" where
  "learning_objectives_count content =
     (case search_objectives content of
        None \<Rightarrow> 0
      | Some section \<Rightarrow> count_line_matches (Class ''-*'') True section)"

subsection \<open>validate_chapter\<close>

definition validate_chapter :: "md_parser \<Rightarrow> string \<Rightarrow> validation_result" where
  "validate_chapter md_parse content =
     (let syntax_errors = validate_markdown_syntax md_parse content;
          structure_errors = validate_structure content;
          word_count = validator_count_words content;
          word_count_errors = validate_word_count word_count;
          reading_time = calculate_reading_time word_count;
          reading_time_errors = validate_reading_time reading_time;
          n_objectives = learning_objectives_count content;
          errs = syntax_errors @ structure_errors @ word_count_errors @ reading_time_errors;
          warns = (if n_objectives = 0 then [''No learning objectives section found''] else [])
      in \<lparr> valid = (length errs = 0), errors = errs, warnings = warns,
           metrics = [(''word_count'', word_count), (''reading_time_minutes'', reading_time),
                      (''learning_objectives_count'', int n_objectives)] \<rparr>)"

subsection \<open>Predicates and test texts for the word counts\<close>

text \<open>
  \<open>contains_code_fence\<close> and \<open>contains_inline_code\<close> say whether the two \<open>re.sub\<close> patterns of
  \<open>_count_words\<close> match anywhere in a text (\<open>re.search(...) is not None\<close>). \<open>words_of w n\<close> is
  the text made of \<open>n\<close> copies of the word \<open>w\<close>, each followed by a space. An error mentions the
  word count when it starts with "Word count", as both messages of \<open>_validate_word_count\<close> do.
\<close>

fun contains_code_fence :: "string \<Rightarrow> bool" where
  "contains_code_fence [] = False"
| "contains_code_fence (c # cs) =
     ((startswith fence (c # cs) \<and> find_fence_close (drop 3 (c # cs)) \<noteq> None)
      \<or> contains_code_fence cs)"

fun contains_inline_code :: "string \<Rightarrow> bool" where
  "contains_inline_code [] = False"
| "contains_inline_code (c # cs) =
     ((c = backtick \<and> takeWhile (\<lambda>x. x \<noteq> backtick) cs \<noteq> []
         \<and> dropWhile (\<lambda>x. x \<noteq> backtick) cs \<noteq> [])
      \<or> contains_inline_code cs)"

definition words_of :: "string \<Rightarrow> nat \<Rightarrow> string" where
  "words_of w n = concat (replicate n (w @ '' ''))"

definition mentions_word_count :: "string \<Rightarrow> bool" where
  "mentions_word_count e = startswith ''Word count'' e"

text \<open>A chapter with one H1 heading, one H2 heading and \<open>n\<close> further words.\<close>

definition sample_chapter :: "nat \<Rightarrow> string" where
  "sample_chapter n = ''# T\<newline>## S\<newline>'' @ words_of ''a'' n"

section \<open>Generation client (llm_client.py)\<close>

text \<open>
  Exceptions are values. \<open>JSONDecodeError\<close> is a subclass of \<open>ValueError\<close> in Python; the
  handlers of the source name both, so the model keeps them apart and treats them alike.
\<close>

datatype py_exception =
    GenerationError string
  | ValueError string
  | JSONDecodeError string
  | KeyError string
  | TypeError string
  | FileNotFoundError string
  | OverflowError string
  | AttributeError string
  | OtherException string

text \<open>The keyword arguments of \<open>generate\<close>.\<close>

record generation_request =
  req_prompt :: string
  req_system_prompt :: "string option"
  req_model :: string
  req_max_tokens :: int
  req_temperature :: real

record api_response =
  response_text :: string
  response_model :: string
  input_tokens :: int
  output_tokens :: int
  stop_reason :: string
  response_id :: string

text \<open>
  What one call of \<open>self.client.messages.create\<close> does: it returns a response or raises.
  \<open>RateLimitError\<close> and \<open>APIConnectionError\<close> are the two retryable provider errors,
  \<open>APIError\<close> any other provider error, \<open>UnexpectedError\<close> any other exception raised inside
  the \<open>try\<close> block.
\<close>

datatype api_outcome =
    ApiResponse api_response
  | RateLimitError string
  | APIConnectionError string
  | APIError string
  | UnexpectedError string

record generation_metadata =
  meta_input_tokens :: int
  meta_output_tokens :: int
  meta_response_id :: string

record generation_result =
  content :: string
  model :: string
  tokens_used :: int
  finish_reason :: string
  metadata :: generation_metadata

text \<open>
  The world outside the client: \<open>provider k req\<close> is the outcome of the provider call number
  \<open>k\<close> (counted from 0 over the life of the client) for the request \<open>req\<close>, and \<open>random_value k\<close>
  is the value of the \<open>k\<close>-th call of \<open>random.random()\<close>, a number in [0, 1).
\<close>

record environment =
  provider :: "nat \<Rightarrow> generation_request \<Rightarrow> api_outcome"
  random_value :: "nat \<Rightarrow> real"

record client_config =
  max_retries :: int
  retry_delay :: int

text \<open>
  The client's mutable state: its token total, and four records of what it did (the number
  of provider calls made, the requests sent with them, the random numbers drawn, the
  seconds slept, in order).
\<close>

record client_state =
  total_tokens_used :: int
  api_calls :: nat
  random_draws :: nat
  sleeps :: "real list"
  requests :: "generation_request list"

definition initial_client_state :: client_state where
  "initial_client_state =
     \<lparr> total_tokens_used = 0, api_calls = 0, random_draws = 0, sleeps = [], requests = [] \<rparr>"

definition MODEL_SONNET :: string where
  "MODEL_SONNET = ''claude-3-haiku-20240307''"

definition MODEL_HAIKU :: string where
  "MODEL_HAIKU = ''claude-3-haiku-20240307''"

definition RATE_LIMIT_BUFFER :: real where
  "RATE_LIMIT_BUFFER = 5"

text \<open>
  Converting a Python \<open>int\<close> to a \<open>float\<close> raises \<open>OverflowError\<close> when the integer rounds
  to a magnitude beyond the largest double, that is from \<open>2^1024 - 2^970\<close> on.
\<close>

definition float_overflow :: "int \<Rightarrow> bool" where
  "float_overflow n = (2 ^ 1024 - 2 ^ 970 \<le> \<bar>n\<bar>)"

text \<open>
  \<open>random.uniform(a, b)\<close> for integers \<open>a\<close> and \<open>b\<close> is \<open>a + (b - a) * self.random()\<close>, where
  \<open>u\<close> is the value \<open>self.random()\<close> returns. The product and the sum convert their integer
  operand to a float, which can raise; the arithmetic on the floats is taken exactly.
\<close>

definition uniform :: "int \<Rightarrow> int \<Rightarrow> real \<Rightarrow> py_exception + real" where
  "uniform a b u =
     (if float_overflow (b - a) \<or> float_overflow a
      then Inl (OverflowError ''int too large to convert to float'')
      else Inr (real_of_int a + real_of_int (b - a) * u))"

text \<open>
  \<open>_calculate_backoff\<close>, for the attempt numbers \<open>range\<close> yields (the naturals); \<open>u\<close> is the
  random number drawn.
\<close>

definition calculate_backoff :: "client_config \<Rightarrow> nat \<Rightarrow> real \<Rightarrow> py_exception + real" where
  "calculate_backoff cfg attempt u =
     (let max_delay = retry_delay cfg * 2 ^ attempt
      in uniform 0 max_delay u)"

text \<open>
  \<open>time.sleep(secs)\<close> raises \<open>ValueError\<close> for a negative argument and \<open>OverflowError\<close> for one
  that does not fit the platform's time type (64-bit nanoseconds); \<open>None\<close> means it slept.
\<close>

definition SLEEP_MAX :: real where
  "SLEEP_MAX = (2 ^ 63 - 1) / 10 ^ 9"

definition time_sleep :: "real \<Rightarrow> py_exception option" where
  "time_sleep secs =
     (if secs < 0 then Some (ValueError ''sleep length must be non-negative'')
      else if SLEEP_MAX < secs
      then Some (OverflowError ''timestamp out of range for platform time_t'')
      else None)"

text \<open>
  The arguments passed to \<open>self.client.messages.create\<close>: an empty system prompt is sent as
  \<open>None\<close>.
\<close>

definition api_request :: "generation_request \<Rightarrow> generation_request" where
  "api_request req =
     req\<lparr> req_system_prompt :=
            (case req_system_prompt req of
               None \<Rightarrow> None
             | Some s \<Rightarrow> if s = [] then None else Some s) \<rparr>"

text \<open>The state after one provider call for the request \<open>req\<close>.\<close>

definition after_call :: "generation_request \<Rightarrow> client_state \<Rightarrow> client_state" where
  "after_call req st =
     st\<lparr> api_calls := Suc (api_calls st), requests := requests st @ [api_request req] \<rparr>"

text \<open>The \<open>GenerationResult\<close> built from a response.\<close>

definition result_of_response :: "api_response \<Rightarrow> generation_result" where
  "result_of_response response =
     \<lparr> content = response_text response, model = response_model response,
       tokens_used = input_tokens response + output_tokens response,
       finish_reason = stop_reason response,
       metadata = \<lparr> meta_input_tokens = input_tokens response,
                    meta_output_tokens = output_tokens response,
                    meta_response_id = response_id response \<rparr> \<rparr>"

text \<open>
  The body the handlers \<open>except RateLimitError\<close> and \<open>except APIConnectionError\<close> share, run
  in the state \<open>st\<close> left by the failed call: the backoff is computed; before the last
  attempt the client sleeps and the loop goes on, on the last attempt \<open>GenerationError\<close> is
  raised with the handler's message. What the backoff computation or \<open>time.sleep\<close> raises is
  raised inside the handler, so no other handler of \<open>generate\<close> catches it.
\<close>

datatype handler_outcome = Continue client_state | Raise py_exception client_state

definition retry_handler ::
  "client_config \<Rightarrow> environment \<Rightarrow> nat \<Rightarrow> string \<Rightarrow> client_state \<Rightarrow> handler_outcome" where
  "retry_handler cfg env attempt what st =
     (let st1 = st\<lparr> random_draws := Suc (random_draws st) \<rparr>
      in case calculate_backoff cfg attempt (random_value env (random_draws st)) of
           Inl err \<Rightarrow> Raise err st1
         | Inr wait_time \<Rightarrow>
             if int attempt < max_retries cfg - 1
             then (case time_sleep wait_time of
                     Some err \<Rightarrow> Raise err st1
                   | None \<Rightarrow> Continue (st1\<lparr> sleeps := sleeps st1 @ [wait_time] \<rparr>))
             else Raise (GenerationError (what @ str_int (max_retries cfg) @ '' attempts'')) st1)"

text \<open>
  \<open>generate\<close>: the loop \<open>for attempt in range(self.max_retries)\<close>, entered at \<open>attempt\<close>.
\<close>

function generate_loop ::
  "client_config \<Rightarrow> environment \<Rightarrow> generation_request \<Rightarrow> nat \<Rightarrow> client_state
     \<Rightarrow> (py_exception + generation_result) \<times> client_state" where
  "generate_loop cfg env req attempt st =
     (if max_retries cfg \<le> int attempt
      then (Inl (GenerationError (''Generation failed after '' @ str_int (max_retries cfg)
                   @ '' attempts'')), st)
      else
        (case provider env (api_calls st) (api_request req) of
           ApiResponse response \<Rightarrow>
             (let tokens = input_tokens response + output_tokens response;
                  st1 = (after_call req st)\<lparr> total_tokens_used := total_tokens_used st + tokens \<rparr>
              in (Inr (result_of_response response), st1))
         | RateLimitError e \<Rightarrow>
             (case retry_handler cfg env attempt ''Rate limit exceeded after ''
                     (after_call req st) of
                Continue st2 \<Rightarrow> generate_loop cfg env req (Suc attempt) st2
              | Raise err st2 \<Rightarrow> (Inl err, st2))
         | APIConnectionError e \<Rightarrow>
             (case retry_handler cfg env attempt ''Connection failed after ''
                     (after_call req st) of
                Continue st2 \<Rightarrow> generate_loop cfg env req (Suc attempt) st2
              | Raise err st2 \<Rightarrow> (Inl err, st2))
         | APIError e \<Rightarrow>
             (Inl (GenerationError (''API error: '' @ e)), after_call req st)
         | UnexpectedError e \<Rightarrow>
             (Inl (GenerationError (''Unexpected error: '' @ e)), after_call req st)))"
  by pat_completeness auto
termination
  by (relation "measure (\<lambda>(cfg, env, req, attempt, st). nat (max_retries cfg - int attempt))")
     auto

declare generate_loop.simps [simp del]

definition generate ::
  "client_config \<Rightarrow> environment \<Rightarrow> generation_request \<Rightarrow> client_state
     \<Rightarrow> (py_exception + generation_result) \<times> client_state" where
  "generate cfg env req st = generate_loop cfg env req 0 st"

definition generate_with_rate_limit_buffer ::
  "client_config \<Rightarrow> environment \<Rightarrow> generation_request \<Rightarrow> client_state
     \<Rightarrow> (py_exception + generation_result) \<times> client_state" where
  "generate_with_rate_limit_buffer cfg env req st =
     (case generate cfg env req st of
        (Inl e, st1) \<Rightarrow> (Inl e, st1)
      | (Inr result, st1) \<Rightarrow> (Inr result, st1\<lparr> sleeps := sleeps st1 @ [RATE_LIMIT_BUFFER] \<rparr>))"

definition get_model_for_task :: "string \<Rightarrow> py_exception + string" where
  "get_model_for_task task =
     (case map_of [(''chapter'', MODEL_SONNET), (''booster'', MODEL_SONNET),
                   (''summary'', MODEL_HAIKU), (''quiz'', MODEL_HAIKU)] task of
        None \<Rightarrow> Inl (ValueError (''Unknown task: '' @ task
                  @ ''. Valid tasks: ['' @ [CHR 0x27] @ ''chapter'' @ [CHR 0x27] @ '', ''
                  @ [CHR 0x27] @ ''booster'' @ [CHR 0x27] @ '', ''
                  @ [CHR 0x27] @ ''summary'' @ [CHR 0x27] @ '', ''
                  @ [CHR 0x27] @ ''quiz'' @ [CHR 0x27] @ '']''))
      | Some m \<Rightarrow> Inr m)"

text \<open>The outcome of a provider call is a rate-limit failure.\<close>

fun is_rate_limit :: "api_outcome \<Rightarrow> bool" where
  "is_rate_limit (RateLimitError e) = True"
| "is_rate_limit other = False"

text \<open>
  What a call returned, if it returned, and what it raised, if it raised; the second
  component of a call's value is the state it leaves.
\<close>

definition returned :: "(py_exception + 'a) \<times> 's \<Rightarrow> 'a option" where
  "returned r = (case fst r of Inr x \<Rightarrow> Some x | Inl e \<Rightarrow> None)"

definition raised :: "(py_exception + 'a) \<times> 's \<Rightarrow> py_exception option" where
  "raised r = (case fst r of Inr x \<Rightarrow> None | Inl e \<Rightarrow> Some e)"

text \<open>
  A provider that answers every call with a rate-limit error, and a source of random numbers
  that always yields one half; used to run the client on a concrete input.
\<close>

definition rate_limited_env :: environment where
  "rate_limited_env =
     \<lparr> provider = (\<lambda>k req. RateLimitError ''429''), random_value = (\<lambda>k. 1 / 2) \<rparr>"

definition sample_request :: generation_request where
  "sample_request =
     \<lparr> req_prompt = ''Write.'', req_system_prompt = None, req_model = MODEL_SONNET,
       req_max_tokens = 4096, req_temperature = 1 \<rparr>"

definition default_config :: client_config where
  "default_config = \<lparr> max_retries = 3, retry_delay = 5 \<rparr>"

section \<open>Chapter generator (chapter_generator.py)\<close>

record ChapterDefinition =
  number :: int
  title :: string
  slug :: string
  learning_objectives :: "string list"
  topics :: "string list"
  word_count_target :: int
  priority :: string

text \<open>
  \<open>ChapterGenerationResult\<close>. Its fields \<open>content\<close> and \<open>tokens_used\<close> are called
  \<open>chapter_content\<close> and \<open>chapter_tokens_used\<close> here, the plain names being those of the
  client's result.
\<close>

record ChapterGenerationResult =
  chapter_content :: string
  chapter_number :: int
  chapter_title :: string
  word_count :: int
  chapter_tokens_used :: int
  model_used :: string
  generation_attempts :: int
  validation_passed :: bool

text \<open>
  The generator object: its two settings, and the two texts it takes from \<open>prompts.py\<close>
  (the system prompt, and the user prompt built for a chapter), which are data of the
  program and are left open here.
\<close>

record ChapterGenerator =
  max_generation_attempts :: int
  enforce_word_count :: bool
  CHAPTER_GENERATION_SYSTEM_PROMPT :: string
  get_chapter_generation_prompt :: "ChapterDefinition \<Rightarrow> string"

definition chapter_count_words :: "string \<Rightarrow> int" where
  "chapter_count_words text_content = (let words = str_split text_content in int (length words))"

definition is_word_count_valid :: "int \<Rightarrow> bool" where
  "is_word_count_valid wc = (800 \<le> wc \<and> wc \<le> 1200)"

definition add_word_count_emphasis :: "string \<Rightarrow> int \<Rightarrow> int \<Rightarrow> string" where
  "add_word_count_emphasis original_prompt actual_count target_count =
     (let emphasis =
        (if actual_count < 800
         then ''\<newline>\<newline>**CRITICAL**: The previous attempt was too short (''
              @ str_int actual_count
              @ '' words). You MUST generate at least 800 words. Target is ''
              @ str_int target_count
              @ '' words. Add more depth, examples, and explanations to reach the required length.''
         else ''\<newline>\<newline>**CRITICAL**: The previous attempt was too long (''
              @ str_int actual_count
              @ '' words). You MUST stay under 1200 words. Target is ''
              @ str_int target_count
              @ '' words. Be more concise and focused on core concepts.'')
      in original_prompt @ emphasis)"

definition chapter_request :: "ChapterGenerator \<Rightarrow> string \<Rightarrow> string \<Rightarrow> generation_request" where
  "chapter_request gen model_id user_prompt =
     \<lparr> req_prompt = user_prompt,
       req_system_prompt = Some (CHAPTER_GENERATION_SYSTEM_PROMPT gen),
       req_model = model_id, req_max_tokens = 4096, req_temperature = 1 \<rparr>"

text \<open>
  The loop \<open>for attempt in range(1, self.max_generation_attempts + 1)\<close> of
  \<open>generate_chapter\<close>, entered at \<open>attempt\<close> with the current \<open>user_prompt\<close>. Leaving the
  range is the \<open>raise\<close> behind the loop.
\<close>

function generate_chapter_loop ::
  "client_config \<Rightarrow> environment \<Rightarrow> ChapterGenerator \<Rightarrow> ChapterDefinition \<Rightarrow> string
     \<Rightarrow> string \<Rightarrow> int \<Rightarrow> client_state
     \<Rightarrow> (py_exception + ChapterGenerationResult) \<times> client_state" where
  "generate_chapter_loop cfg env gen chapter model_id user_prompt attempt st =
     (if attempt < 1 \<or> max_generation_attempts gen < attempt
      then (Inl (GenerationError (''Failed to generate Chapter '' @ str_int (number chapter)
                   @ '' after '' @ str_int (max_generation_attempts gen) @ '' attempts'')), st)
      else
        (case generate_with_rate_limit_buffer cfg env
                (chapter_request gen model_id user_prompt) st of
           (Inr result, st1) \<Rightarrow>
             (let wc = chapter_count_words (content result)
              in if enforce_word_count gen \<and> \<not> is_word_count_valid wc
                    \<and> attempt < max_generation_attempts gen
                 then generate_chapter_loop cfg env gen chapter model_id
                        (add_word_count_emphasis user_prompt wc (word_count_target chapter))
                        (attempt + 1) st1
                 else (Inr \<lparr> chapter_content = content result,
                             chapter_number = number chapter,
                             chapter_title = title chapter,
                             word_count = wc,
                             chapter_tokens_used = tokens_used result,
                             model_used = model result,
                             generation_attempts = attempt,
                             validation_passed = is_word_count_valid wc \<rparr>, st1))
         | (Inl (GenerationError msg), st1) \<Rightarrow>
             (if attempt \<ge> max_generation_attempts gen
              then (Inl (GenerationError msg), st1)
              else generate_chapter_loop cfg env gen chapter model_id user_prompt
                     (attempt + 1) st1)
         | (Inl e, st1) \<Rightarrow> (Inl e, st1)))"
  by pat_completeness auto
termination
  by (relation "measure (\<lambda>(cfg, env, gen, chapter, model_id, user_prompt, attempt, st).
        nat (max_generation_attempts gen + 1 - attempt))") auto

declare generate_chapter_loop.simps [simp del]

definition generate_chapter ::
  "client_config \<Rightarrow> environment \<Rightarrow> ChapterGenerator \<Rightarrow> ChapterDefinition \<Rightarrow> client_state
     \<Rightarrow> (py_exception + ChapterGenerationResult) \<times> client_state" where
  "generate_chapter cfg env gen chapter st =
     (let user_prompt = get_chapter_generation_prompt gen chapter
      in case get_model_for_task ''chapter'' of
           Inl e \<Rightarrow> (Inl e, st)
         | Inr model_id \<Rightarrow> generate_chapter_loop cfg env gen chapter model_id user_prompt 1 st)"

subsection \<open>Test inputs for the chapter generator\<close>

text \<open>
  \<open>sized_response n\<close> is a provider response whose text has \<open>n\<close> words. \<open>retry_env\<close> answers
  the first call with 5 words, the second with 1300 and every later one with 1000.
  \<open>starred_text\<close> is a text of 790 words followed by 10 asterisks standing alone.
\<close>

definition sized_response :: "nat \<Rightarrow> api_response" where
  "sized_response n =
     \<lparr> response_text = words_of ''a'' n, response_model = MODEL_SONNET, input_tokens = 10,
       output_tokens = int n, stop_reason = ''end_turn'', response_id = ''msg_1'' \<rparr>"

definition retry_env :: environment where
  "retry_env =
     \<lparr> provider = (\<lambda>k req. ApiResponse
          (sized_response (if k = 0 then 5 else if k = 1 then 1300 else 1000))),
       random_value = (\<lambda>k. 1 / 2) \<rparr>"

definition sample_generator :: ChapterGenerator where
  "sample_generator =
     \<lparr> max_generation_attempts = 3, enforce_word_count = True,
       CHAPTER_GENERATION_SYSTEM_PROMPT = ''You are an expert author.'',
       get_chapter_generation_prompt = (\<lambda>c. ''Generate a chapter: '' @ title c) \<rparr>"

definition sample_unit :: ChapterDefinition where
  "sample_unit =
     \<lparr> number = 2, title = ''Sensors'', slug = ''sensors'', learning_objectives = [],
       topics = [], word_count_target = 1000, priority = ''P1'' \<rparr>"

definition starred_text :: string where
  "starred_text = words_of ''a'' 790 @ words_of ''*'' 10"

definition starred_env :: environment where
  "starred_env =
     \<lparr> provider = (\<lambda>k req. ApiResponse
          ((sized_response 0)\<lparr> response_text := starred_text \<rparr>)),
       random_value = (\<lambda>k. 1 / 2) \<rparr>"

text \<open>A client that has made \<open>k\<close> provider calls.\<close>

definition after_calls :: "nat \<Rightarrow> client_state" where
  "after_calls k = initial_client_state\<lparr> api_calls := k \<rparr>"

section \<open>Content validator: quizzes and learning boosters (validator.py)\<close>

subsection \<open>validate_quiz\<close>

text \<open>
  A question dictionary. The four keys \<open>validate_quiz\<close> looks at are fields, \<open>None\<close> standing
  for a key that is absent; a key that is present holds a value of the type the docstring
  of \<open>validate_quiz\<close> gives for it.
\<close>

record quiz_question =
  question_text :: "string option"
  options :: "string list option"
  correct_index :: "int option"
  difficulty :: "string option"

text \<open>The loop \<open>for j, option in enumerate(options)\<close> of question \<open>i\<close>.\<close>

fun option_loop :: "nat \<Rightarrow> nat \<Rightarrow> string list \<Rightarrow> string list \<Rightarrow> string list" where
  "option_loop i j [] errs = errs"
| "option_loop i j (opt # rest) errs =
     option_loop i (Suc j) rest
       (if strip opt = []
        then errs @ [''Question '' @ str_nat i @ '', option '' @ str_nat j @ '': option is empty'']
        else errs)"

definition valid_difficulties :: "string list" where
  "valid_difficulties = [''easy'', ''medium'', ''hard'']"

text \<open>
  The loop \<open>for i, question in enumerate(questions, start=1)\<close>, threading the two lists the
  source appends to. Each of the first three branches ends in \<open>continue\<close>.
\<close>

fun quiz_loop ::
  "nat \<Rightarrow> quiz_question list \<Rightarrow> string list \<times> string list \<Rightarrow> string list \<times> string list" where
  "quiz_loop i [] (errs, warns) = (errs, warns)"
| "quiz_loop i (question # rest) (errs, warns) =
     (case question_text question of
        None \<Rightarrow>
          quiz_loop (Suc i) rest
            (errs @ [''Question '' @ str_nat i @ '': missing 'question_text' field''], warns)
      | Some qtext \<Rightarrow>
     (case options question of
        None \<Rightarrow>
          quiz_loop (Suc i) rest
            (errs @ [''Question '' @ str_nat i @ '': missing 'options' field''], warns)
      | Some opts \<Rightarrow>
     (case correct_index question of
        None \<Rightarrow>
          quiz_loop (Suc i) rest
            (errs @ [''Question '' @ str_nat i @ '': missing 'correct_index' field''], warns)
      | Some ci \<Rightarrow>
          (let errs1 = (if length opts \<noteq> 4
                        then errs @ [''Question '' @ str_nat i
                               @ '': must have exactly 4 options (got ''
                               @ str_nat (length opts) @ '')'']
                        else errs);
               errs2 = (if \<not> (0 \<le> ci \<and> ci \<le> 3)
                        then errs1 @ [''Question '' @ str_nat i
                               @ '': correct_index must be 0-3 (got '' @ str_int ci @ '')'']
                        else errs1);
               errs3 = (if strip qtext = []
                        then errs2 @ [''Question '' @ str_nat i @ '': question_text is empty'']
                        else errs2);
               errs4 = option_loop i 0 opts errs3;
               warns1 = (case difficulty question of
                           None \<Rightarrow> warns
                         | Some d \<Rightarrow>
                             if d \<notin> set valid_difficulties
                             then warns @ [''Question '' @ str_nat i @ '': invalid difficulty ''
                                    @ [CHR 0x27] @ d @ [CHR 0x27]
                                    @ '' (valid: ['easy', 'medium', 'hard'])'']
                             else warns)
           in quiz_loop (Suc i) rest (errs4, warns1)))))"

text \<open>\<open>q.get("question_text", "")\<close>.\<close>

definition get_question_text :: "quiz_question \<Rightarrow> string" where
  "get_question_text q = (case question_text q of None \<Rightarrow> [] | Some t \<Rightarrow> t)"

definition validate_quiz :: "quiz_question list \<Rightarrow> int \<Rightarrow> int \<Rightarrow> validation_result" where
  "validate_quiz questions min_questions max_questions =
     (let n = int (length questions);
          errs0 =
            (if n < min_questions
             then [''Too few questions: '' @ str_int n @ '' (minimum ''
                    @ str_int min_questions @ '')'']
             else if n > max_questions
             then [''Too many questions: '' @ str_int n @ '' (maximum ''
                    @ str_int max_questions @ '')'']
             else []);
          (errs, warns) = quiz_loop 1 questions (errs0, []);
          question_texts = map get_question_text questions;
          warns1 = (if length question_texts \<noteq> card (set question_texts)
                    then warns @ [''Duplicate questions detected'']
                    else warns)
      in \<lparr> valid = (length errs = 0), errors = errs, warnings = warns1,
           metrics = [(''question_count'', n)] \<rparr>)"

subsection \<open>validate_learning_booster\<close>

definition valid_types :: "string list" where
  "valid_types = [''analogy'', ''example'', ''explanation'']"

definition validate_learning_booster ::
  "string \<Rightarrow> string \<Rightarrow> int \<Rightarrow> int \<Rightarrow> validation_result" where
  "validate_learning_booster body booster_type min_length max_length =
     (let len = int (length body);
          errs1 =
            (if len < min_length
             then [''Booster too short: '' @ str_int len @ '' chars (minimum ''
                    @ str_int min_length @ '')'']
             else if len > max_length
             then [''Booster too long: '' @ str_int len @ '' chars (maximum ''
                    @ str_int max_length @ '')'']
             else []);
          errs2 =
            (if booster_type \<notin> set valid_types
             then errs1 @ [''Invalid booster type: '' @ [CHR 0x27] @ booster_type @ [CHR 0x27]
                    @ '' (valid: ['analogy', 'example', 'explanation'])'']
             else errs1);
          errs3 = (if strip body = [] then errs2 @ [''Booster content is empty''] else errs2)
      in \<lparr> valid = (length errs3 = 0), errors = errs3, warnings = [],
           metrics = [(''content_length'', len)] \<rparr>)"

subsection \<open>The entries one question contributes\<close>






subsection \<open>Test inputs for the validators\<close>

text \<open>
  \<open>no_text_question\<close> lacks \<open>question_text\<close>, has three options and the index 9;
  \<open>untitled_question\<close> is the same question with a text. \<open>no_options_question\<close> and
  \<open>no_index_question\<close> lack one field each. \<open>bad_question\<close> has all fields: a blank text,
  three options of which the second is blank, the index 9 and an unknown difficulty.
  \<open>sample_quiz\<close> lists them, the last one twice.
\<close>

definition no_text_question :: quiz_question where
  "no_text_question =
     \<lparr> question_text = None, options = Some [''A'', ''B'', ''C''], correct_index = Some 9,
       difficulty = None \<rparr>"


definition no_options_question :: quiz_question where
  "no_options_question =
     \<lparr> question_text = Some ''Q2'', options = None, correct_index = Some 0,
       difficulty = None \<rparr>"

definition no_index_question :: quiz_question where
  "no_index_question =
     \<lparr> question_text = Some ''Q3'', options = Some [''A'', ''B'', ''C'', ''D''],
       correct_index = None, difficulty = None \<rparr>"

definition bad_question :: quiz_question where
  "bad_question =
     \<lparr> question_text = Some '' '', options = Some [''A'', '' '', ''C''], correct_index = Some 9,
       difficulty = Some ''tricky'' \<rparr>"

definition sample_quiz :: "quiz_question list" where
  "sample_quiz =
     [no_text_question, no_options_question, no_index_question, bad_question, bad_question]"

section \<open>Summary, quiz and booster generators\<close>

subsection \<open>Parsed JSON\<close>

text \<open>
  The values \<open>json.loads\<close> returns. The \<open>json\<close> module is a library outside the repository:
  \<open>loads s\<close> stands for \<open>json.loads(s)\<close>, \<open>Inr v\<close> when it returns \<open>v\<close> and \<open>Inl e\<close> when it
  raises \<open>e\<close> (\<open>JSONDecodeError\<close> for text that is not JSON). A dictionary lists its keys
  once.
\<close>

datatype json =
    JNull
  | JBool bool
  | JInt int
  | JFloat real
  | JStr string
  | JList "json list"
  | JDict "(string \<times> json) list"

type_synonym json_parser = "string \<Rightarrow> py_exception + json"

text \<open>The name of a value's class, and \<open>str(type(v))\<close>.\<close>

fun type_name :: "json \<Rightarrow> string" where
  "type_name JNull = ''NoneType''"
| "type_name (JBool b) = ''bool''"
| "type_name (JInt i) = ''int''"
| "type_name (JFloat r) = ''float''"
| "type_name (JStr s) = ''str''"
| "type_name (JList xs) = ''list''"
| "type_name (JDict d) = ''dict''"

definition type_repr :: "json \<Rightarrow> string" where
  "type_repr v = ''<class '' @ [CHR 0x27] @ type_name v @ [CHR 0x27] @ ''>''"

definition dquote :: string where
  "dquote = [CHR 0x22]"

text \<open>\<open>JSONDecodeError\<close> is a subclass of \<open>ValueError\<close>: what \<open>except ValueError\<close> catches.\<close>

fun is_value_error :: "py_exception \<Rightarrow> bool" where
  "is_value_error (ValueError m) = True"
| "is_value_error (JSONDecodeError m) = True"
| "is_value_error other = False"

fun is_generation_error :: "py_exception \<Rightarrow> bool" where
  "is_generation_error (GenerationError m) = True"
| "is_generation_error other = False"

text \<open>
  The statements with which each of the three \<open>_parse_..._json\<close> methods begins: the text
  is stripped, an opening \<open>```json\<close> or \<open>```\<close> and a closing \<open>```\<close> are cut off, and the
  text is stripped again.
\<close>

definition strip_code_block :: "string \<Rightarrow> string" where
  "strip_code_block raw =
     (let c0 = strip raw;
          c1 = (if startswith (fence @ ''json'') c0 then drop 7 c0 else c0);
          c2 = (if startswith fence c1 then drop 3 c1 else c1);
          c3 = (if endswith fence c2 then take (length c2 - 3) c2 else c2)
      in strip c3)"

subsection \<open>Summary generator (summary_generator.py)\<close>

fun json_strings :: "json list \<Rightarrow> string list option" where
  "json_strings [] = Some []"
| "json_strings (JStr s # rest) = map_option ((#) s) (json_strings rest)"
| "json_strings (other # rest) = None"

definition parse_takeaways_json :: "json_parser \<Rightarrow> string \<Rightarrow> py_exception + string list" where
  "parse_takeaways_json loads raw =
     (case loads (strip_code_block raw) of
        Inl e \<Rightarrow> Inl e
      | Inr parsed \<Rightarrow>
          (case parsed of
             JList items \<Rightarrow>
               (case json_strings items of
                  Some strings \<Rightarrow> Inr strings
                | None \<Rightarrow> Inl (ValueError ''All takeaways must be strings''))
           | other \<Rightarrow> Inl (ValueError (''Expected JSON array, got '' @ type_repr parsed))))"

text \<open>
  \<open>SummaryGenerationResult\<close> and the generator object; the fields they share by name with
  the chapter generator's classes carry the prefix \<open>summary_\<close>. The system prompt and the
  prompt builder are the texts of \<open>prompts.py\<close>, left open.
\<close>

record SummaryGenerationResult =
  takeaways :: "string list"
  summary_chapter_number :: int
  summary_chapter_title :: string
  summary_tokens_used :: int
  summary_model_used :: string
  summary_generation_attempts :: int
  summary_validation_passed :: bool

record SummaryGenerator =
  summary_max_generation_attempts :: int
  summary_enforce_validation :: bool
  SUMMARY_GENERATION_SYSTEM_PROMPT :: string
  get_summary_generation_prompt :: "string \<Rightarrow> string \<Rightarrow> string"

definition summary_json_format_emphasis :: "string \<Rightarrow> string" where
  "summary_json_format_emphasis original_prompt =
     original_prompt
     @ ''\<newline>\<newline>**CRITICAL**: Your response MUST be a valid JSON array of strings. ''
     @ ''Example format:\<newline>['' @ dquote @ ''Takeaway 1'' @ dquote @ '', ''
     @ dquote @ ''Takeaway 2'' @ dquote @ '', '' @ dquote @ ''Takeaway 3'' @ dquote
     @ '']\<newline>''
     @ ''Do NOT include any markdown formatting, code blocks, or explanations. ''
     @ ''Return ONLY the JSON array.''"

definition summary_validation_emphasis :: "string \<Rightarrow> validation_result \<Rightarrow> string" where
  "summary_validation_emphasis original_prompt validation =
     (let errors_text = join ''; '' (errors validation)
      in original_prompt
         @ ''\<newline>\<newline>**CRITICAL**: The previous attempt failed validation with these errors: ''
         @ errors_text @ ''\<newline>\<newline>''
         @ ''Requirements:\<newline>''
         @ ''- Generate exactly 3-5 takeaways\<newline>''
         @ ''- Each takeaway must be 50-150 characters\<newline>''
         @ ''- Return as JSON array: ['' @ dquote @ ''Takeaway 1'' @ dquote @ '', ''
         @ dquote @ ''Takeaway 2'' @ dquote @ '', ...]\<newline>''
         @ ''Please fix these issues and try again.'')"

definition summary_request :: "SummaryGenerator \<Rightarrow> string \<Rightarrow> string \<Rightarrow> generation_request" where
  "summary_request gen model_id user_prompt =
     \<lparr> req_prompt = user_prompt,
       req_system_prompt = Some (SUMMARY_GENERATION_SYSTEM_PROMPT gen),
       req_model = model_id, req_max_tokens = 1024, req_temperature = 1 \<rparr>"

text \<open>
  The loop of \<open>generate_summary\<close>, entered at \<open>attempt\<close> with the current \<open>user_prompt\<close>. The
  inner \<open>try\<close> catches what \<open>_parse_takeaways_json\<close> raises when it is a \<open>ValueError\<close>; the
  outer one catches \<open>GenerationError\<close>, also the one the inner handler raises on the last
  attempt, and re-raises it there.
\<close>

function generate_summary_loop ::
  "client_config \<Rightarrow> environment \<Rightarrow> json_parser \<Rightarrow> SummaryGenerator \<Rightarrow> string \<Rightarrow> int
     \<Rightarrow> string \<Rightarrow> string \<Rightarrow> int \<Rightarrow> client_state
     \<Rightarrow> (py_exception + SummaryGenerationResult) \<times> client_state" where
  "generate_summary_loop cfg env loads gen ch_title ch_number model_id user_prompt attempt st =
     (if attempt < 1 \<or> summary_max_generation_attempts gen < attempt
      then (Inl (GenerationError (''Failed to generate summary for Chapter ''
                   @ str_int ch_number @ '' after ''
                   @ str_int (summary_max_generation_attempts gen) @ '' attempts'')), st)
      else
        (case generate_with_rate_limit_buffer cfg env
                (summary_request gen model_id user_prompt) st of
           (Inr result, st1) \<Rightarrow>
             (case parse_takeaways_json loads (strip (content result)) of
                Inl e \<Rightarrow>
                  if is_value_error e
                  then (if attempt < summary_max_generation_attempts gen
                        then generate_summary_loop cfg env loads gen ch_title ch_number model_id
                               (summary_json_format_emphasis user_prompt) (attempt + 1) st1
                        else (Inl (GenerationError (''Failed to parse summary JSON after ''
                                @ str_int (summary_max_generation_attempts gen)
                                @ '' attempts'')), st1))
                  else if is_generation_error e
                         \<and> attempt < summary_max_generation_attempts gen
                  then generate_summary_loop cfg env loads gen ch_title ch_number model_id
                         user_prompt (attempt + 1) st1
                  else (Inl e, st1)
              | Inr parsed_takeaways \<Rightarrow>
                  (let validation = validate_summary parsed_takeaways 3 5
                   in if summary_enforce_validation gen \<and> \<not> valid validation
                         \<and> attempt < summary_max_generation_attempts gen
                      then generate_summary_loop cfg env loads gen ch_title ch_number model_id
                             (summary_validation_emphasis user_prompt validation)
                             (attempt + 1) st1
                      else (Inr \<lparr> takeaways = parsed_takeaways,
                                  summary_chapter_number = ch_number,
                                  summary_chapter_title = ch_title,
                                  summary_tokens_used = tokens_used result,
                                  summary_model_used = model result,
                                  summary_generation_attempts = attempt,
                                  summary_validation_passed = valid validation \<rparr>, st1)))
         | (Inl e, st1) \<Rightarrow>
             if is_generation_error e \<and> attempt < summary_max_generation_attempts gen
             then generate_summary_loop cfg env loads gen ch_title ch_number model_id
                    user_prompt (attempt + 1) st1
             else (Inl e, st1)))"
  by pat_completeness auto
termination
  by (relation "measure (\<lambda>(cfg, env, loads, gen, ch_title, ch_number, model_id, user_prompt,
        attempt, st). nat (summary_max_generation_attempts gen + 1 - attempt))") auto

declare generate_summary_loop.simps [simp del]

definition generate_summary ::
  "client_config \<Rightarrow> environment \<Rightarrow> json_parser \<Rightarrow> SummaryGenerator \<Rightarrow> string \<Rightarrow> string
     \<Rightarrow> int \<Rightarrow> client_state \<Rightarrow> (py_exception + SummaryGenerationResult) \<times> client_state" where
  "generate_summary cfg env loads gen ch_content ch_title ch_number st =
     (let user_prompt = get_summary_generation_prompt gen ch_content ch_title
      in case get_model_for_task ''summary'' of
           Inl e \<Rightarrow> (Inl e, st)
         | Inr model_id \<Rightarrow>
             generate_summary_loop cfg env loads gen ch_title ch_number model_id user_prompt 1 st)"

subsection \<open>Quiz generator (quiz_generator.py)\<close>

definition required_fields :: "string list" where
  "required_fields = [''question_text'', ''options'', ''correct_index'']"

text \<open>
  The text of a set of field names as an f-string shows it. Python lists the elements of a
  set in an order of its own; here they come in the order of \<open>required_fields\<close>. The text
  is part of an exception message that is only logged.
\<close>

definition set_repr :: "string list \<Rightarrow> string" where
  "set_repr names =
     ''{'' @ join '', '' (map (\<lambda>name. [CHR 0x27] @ name @ [CHR 0x27]) names) @ ''}''"

text \<open>The loop \<open>for i, item in enumerate(parsed)\<close> of \<open>_parse_quiz_json\<close>.\<close>

fun check_quiz_items :: "nat \<Rightarrow> json list \<Rightarrow> py_exception option" where
  "check_quiz_items i [] = None"
| "check_quiz_items i (item # rest) =
     (case item of
        JDict d \<Rightarrow>
          (let missing_fields = filter (\<lambda>f. f \<notin> set (map fst d)) required_fields
           in if missing_fields \<noteq> []
              then Some (ValueError (''Question '' @ str_nat (i + 1)
                     @ '' missing required fields: '' @ set_repr missing_fields))
              else check_quiz_items (i + 1) rest)
      | other \<Rightarrow> Some (ValueError (''Question '' @ str_nat (i + 1) @ '' is not a dictionary'')))"

definition parse_quiz_json :: "json_parser \<Rightarrow> string \<Rightarrow> py_exception + json list" where
  "parse_quiz_json loads raw =
     (case loads (strip_code_block raw) of
        Inl e \<Rightarrow> Inl e
      | Inr parsed \<Rightarrow>
          (case parsed of
             JList items \<Rightarrow>
               (case check_quiz_items 0 items of
                  Some e \<Rightarrow> Inl e
                | None \<Rightarrow> Inr items)
           | other \<Rightarrow> Inl (ValueError (''Expected JSON array, got '' @ type_repr parsed))))"

text \<open>
  A parsed question as the typed dictionary \<open>validate_quiz\<close> is written for: \<open>None\<close> when a
  key the validator reads holds a value of another type than its docstring gives.
\<close>

fun typed_text :: "json option \<Rightarrow> string option option" where
  "typed_text None = Some None"
| "typed_text (Some (JStr s)) = Some (Some s)"
| "typed_text (Some other) = None"

fun typed_index :: "json option \<Rightarrow> int option option" where
  "typed_index None = Some None"
| "typed_index (Some (JInt i)) = Some (Some i)"
| "typed_index (Some other) = None"

fun typed_options :: "json option \<Rightarrow> string list option option" where
  "typed_options None = Some None"
| "typed_options (Some (JList xs)) = map_option Some (json_strings xs)"
| "typed_options (Some other) = None"

fun typed_question :: "json \<Rightarrow> quiz_question option" where
  "typed_question (JDict d) =
     (case (typed_text (map_of d ''question_text''), typed_options (map_of d ''options''),
            typed_index (map_of d ''correct_index''), typed_text (map_of d ''difficulty'')) of
        (Some qt, Some opts, Some ci, Some diff) \<Rightarrow>
          Some \<lparr> question_text = qt, options = opts, correct_index = ci, difficulty = diff \<rparr>
      | other \<Rightarrow> None)"
| "typed_question other = None"

fun typed_questions :: "json list \<Rightarrow> quiz_question list option" where
  "typed_questions [] = Some []"
| "typed_questions (q # rest) =
     (case typed_question q of
        None \<Rightarrow> None
      | Some t \<Rightarrow> map_option ((#) t) (typed_questions rest))"

text \<open>
  \<open>QuizGenerationResult\<close> and the generator object, its shared field names prefixed with
  \<open>quiz_\<close>. \<open>untyped_validation\<close> stands for what \<open>validate_quiz\<close> does with questions that
  are not typed as its docstring says (it may raise); it is left open.
\<close>

record QuizGenerationResult =
  questions :: "json list"
  quiz_chapter_number :: int
  quiz_chapter_title :: string
  quiz_tokens_used :: int
  quiz_model_used :: string
  quiz_generation_attempts :: int
  quiz_validation_passed :: bool

record QuizGenerator =
  quiz_max_generation_attempts :: int
  quiz_enforce_validation :: bool
  num_questions :: int
  QUIZ_GENERATION_SYSTEM_PROMPT :: string
  get_quiz_generation_prompt :: "string \<Rightarrow> string \<Rightarrow> int \<Rightarrow> string"
  untyped_validation :: "json list \<Rightarrow> py_exception + validation_result"

text \<open>The constructor clamps the number of questions to 5..7.\<close>

definition clamp_num_questions :: "int \<Rightarrow> int" where
  "clamp_num_questions n = max 5 (min 7 n)"

definition run_validate_quiz :: "QuizGenerator \<Rightarrow> json list \<Rightarrow> py_exception + validation_result" where
  "run_validate_quiz gen parsed =
     (case typed_questions parsed of
        Some qs \<Rightarrow> Inr (validate_quiz qs (num_questions gen) (num_questions gen))
      | None \<Rightarrow> untyped_validation gen parsed)"

definition quiz_json_format_emphasis :: "string \<Rightarrow> string" where
  "quiz_json_format_emphasis original_prompt =
     original_prompt
     @ ''\<newline>\<newline>**CRITICAL**: Your response MUST be a valid JSON array of question objects. ''
     @ ''Example format:\<newline>''
     @ ''[{'' @ dquote @ ''question_text'' @ dquote @ '': '' @ dquote @ ''...'' @ dquote
     @ '', '' @ dquote @ ''options'' @ dquote @ '': ['' @ dquote @ ''A'' @ dquote @ '', ''
     @ dquote @ ''B'' @ dquote @ '', '' @ dquote @ ''C'' @ dquote @ '', '' @ dquote @ ''D''
     @ dquote @ ''], '' @ dquote @ ''correct_index'' @ dquote @ '': 0, ''
     @ dquote @ ''difficulty'' @ dquote @ '': '' @ dquote @ ''easy'' @ dquote @ '', ''
     @ dquote @ ''topic'' @ dquote @ '': '' @ dquote @ ''...'' @ dquote @ ''}]\<newline>''
     @ ''Do NOT include any markdown formatting, code blocks, or explanations. ''
     @ ''Return ONLY the JSON array.''"

definition quiz_validation_emphasis ::
  "QuizGenerator \<Rightarrow> string \<Rightarrow> validation_result \<Rightarrow> string" where
  "quiz_validation_emphasis gen original_prompt validation =
     (let errors_text = join ''; '' (errors validation)
      in original_prompt
         @ ''\<newline>\<newline>**CRITICAL**: The previous attempt failed validation with these errors: ''
         @ errors_text @ ''\<newline>\<newline>''
         @ ''Requirements:\<newline>''
         @ ''- Generate exactly '' @ str_int (num_questions gen) @ '' questions\<newline>''
         @ ''- Each question must have exactly 4 options\<newline>''
         @ ''- Each question must have exactly 1 correct answer (correct_index: 0-3)\<newline>''
         @ ''- All question_text fields must be non-empty\<newline>''
         @ ''- All options must be non-empty strings\<newline>''
         @ ''- Return as JSON array with required fields\<newline>''
         @ ''Please fix these issues and try again.'')"

definition quiz_request :: "QuizGenerator \<Rightarrow> string \<Rightarrow> string \<Rightarrow> generation_request" where
  "quiz_request gen model_id user_prompt =
     \<lparr> req_prompt = user_prompt,
       req_system_prompt = Some (QUIZ_GENERATION_SYSTEM_PROMPT gen),
       req_model = model_id, req_max_tokens = 2048, req_temperature = 1 \<rparr>"

text \<open>The loop of \<open>generate_quiz\<close>, built like the one of \<open>generate_summary\<close>.\<close>

function generate_quiz_loop ::
  "client_config \<Rightarrow> environment \<Rightarrow> json_parser \<Rightarrow> QuizGenerator \<Rightarrow> string \<Rightarrow> int
     \<Rightarrow> string \<Rightarrow> string \<Rightarrow> int \<Rightarrow> client_state
     \<Rightarrow> (py_exception + QuizGenerationResult) \<times> client_state" where
  "generate_quiz_loop cfg env loads gen ch_title ch_number model_id user_prompt attempt st =
     (if attempt < 1 \<or> quiz_max_generation_attempts gen < attempt
      then (Inl (GenerationError (''Failed to generate quiz for Chapter ''
                   @ str_int ch_number @ '' after ''
                   @ str_int (quiz_max_generation_attempts gen) @ '' attempts'')), st)
      else
        (case generate_with_rate_limit_buffer cfg env
                (quiz_request gen model_id user_prompt) st of
           (Inr result, st1) \<Rightarrow>
             (case parse_quiz_json loads (strip (content result)) of
                Inl e \<Rightarrow>
                  if is_value_error e
                  then (if attempt < quiz_max_generation_attempts gen
                        then generate_quiz_loop cfg env loads gen ch_title ch_number model_id
                               (quiz_json_format_emphasis user_prompt) (attempt + 1) st1
                        else (Inl (GenerationError (''Failed to parse quiz JSON after ''
                                @ str_int (quiz_max_generation_attempts gen)
                                @ '' attempts'')), st1))
                  else if is_generation_error e \<and> attempt < quiz_max_generation_attempts gen
                  then generate_quiz_loop cfg env loads gen ch_title ch_number model_id
                         user_prompt (attempt + 1) st1
                  else (Inl e, st1)
              | Inr parsed_questions \<Rightarrow>
                  (case run_validate_quiz gen parsed_questions of
                     Inl e \<Rightarrow>
                       if is_generation_error e \<and> attempt < quiz_max_generation_attempts gen
                       then generate_quiz_loop cfg env loads gen ch_title ch_number model_id
                              user_prompt (attempt + 1) st1
                       else (Inl e, st1)
                   | Inr validation \<Rightarrow>
                       if quiz_enforce_validation gen \<and> \<not> valid validation
                          \<and> attempt < quiz_max_generation_attempts gen
                       then generate_quiz_loop cfg env loads gen ch_title ch_number model_id
                              (quiz_validation_emphasis gen user_prompt validation)
                              (attempt + 1) st1
                       else (Inr \<lparr> questions = parsed_questions,
                                   quiz_chapter_number = ch_number,
                                   quiz_chapter_title = ch_title,
                                   quiz_tokens_used = tokens_used result,
                                   quiz_model_used = model result,
                                   quiz_generation_attempts = attempt,
                                   quiz_validation_passed = valid validation \<rparr>, st1)))
         | (Inl e, st1) \<Rightarrow>
             if is_generation_error e \<and> attempt < quiz_max_generation_attempts gen
             then generate_quiz_loop cfg env loads gen ch_title ch_number model_id
                    user_prompt (attempt + 1) st1
             else (Inl e, st1)))"
  by pat_completeness auto
termination
  by (relation "measure (\<lambda>(cfg, env, loads, gen, ch_title, ch_number, model_id, user_prompt,
        attempt, st). nat (quiz_max_generation_attempts gen + 1 - attempt))") auto

declare generate_quiz_loop.simps [simp del]

definition generate_quiz ::
  "client_config \<Rightarrow> environment \<Rightarrow> json_parser \<Rightarrow> QuizGenerator \<Rightarrow> string \<Rightarrow> string
     \<Rightarrow> int \<Rightarrow> client_state \<Rightarrow> (py_exception + QuizGenerationResult) \<times> client_state" where
  "generate_quiz cfg env loads gen ch_content ch_title ch_number st =
     (let user_prompt = get_quiz_generation_prompt gen ch_content ch_title (num_questions gen)
      in case get_model_for_task ''quiz'' of
           Inl e \<Rightarrow> (Inl e, st)
         | Inr model_id \<Rightarrow>
             generate_quiz_loop cfg env loads gen ch_title ch_number model_id user_prompt 1 st)"

subsection \<open>Booster generator (booster_generator.py)\<close>

text \<open>
  \<open>re.split(r'\n##\s+', content)\<close>: the text is cut at every newline followed by \<open>##\<close> and
  at least one whitespace character; the whole whitespace run belongs to the separator.
\<close>

function split_sections :: "string \<Rightarrow> string \<Rightarrow> string list" where
  "split_sections cur [] = [cur]"
| "split_sections cur (c # cs) =
     (if startswith (newline # ''##'') (c # cs)
         \<and> takeWhile isspace (drop 3 (c # cs)) \<noteq> []
      then cur # split_sections [] (dropWhile isspace (drop 3 (c # cs)))
      else split_sections (cur @ [c]) cs)"
  by pat_completeness auto
termination
proof (relation "measure (\<lambda>(cur, s). length s)")
  fix cur :: string and c :: char and cs :: string
  have "length (dropWhile isspace (drop 3 (c # cs))) \<le> length (drop 3 (c # cs))"
    by (rule length_dropWhile_le)
  then show "((([]::string), dropWhile isspace (drop 3 (c # cs))), (cur, c # cs))
      \<in> measure (\<lambda>(cur, s). length s)"
    by simp
qed simp_all

definition extract_sections :: "string \<Rightarrow> string list" where
  "extract_sections doc = map strip (filter (\<lambda>s. strip s \<noteq> []) (split_sections [] doc))"

definition parse_boosters_json :: "json_parser \<Rightarrow> string \<Rightarrow> py_exception + json list" where
  "parse_boosters_json loads raw =
     (case loads (strip_code_block raw) of
        Inl e \<Rightarrow> Inl e
      | Inr parsed \<Rightarrow>
          (case parsed of
             JList items \<Rightarrow> Inr items
           | other \<Rightarrow> Inl (ValueError (''Expected array, got '' @ type_repr parsed))))"

text \<open>\<open>b[key]\<close> for a parsed value \<open>b\<close> and a string \<open>key\<close>.\<close>

fun subscript :: "json \<Rightarrow> string \<Rightarrow> py_exception + json" where
  "subscript (JDict d) key =
     (case map_of d key of
        Some v \<Rightarrow> Inr v
      | None \<Rightarrow> Inl (KeyError ([CHR 0x27] @ key @ [CHR 0x27])))"
| "subscript (JList xs) key = Inl (TypeError ''list indices must be integers or slices, not str'')"
| "subscript (JStr s) key =
     Inl (TypeError (''string indices must be integers, not '' @ [CHR 0x27] @ ''str'' @ [CHR 0x27]))"
| "subscript other key =
     Inl (TypeError ([CHR 0x27] @ type_name other @ [CHR 0x27] @ '' object is not subscriptable''))"

text \<open>
  \<open>self.validator.validate_learning_booster(content, booster_type).valid\<close> on parsed
  values: a content without length makes \<open>len\<close> raise, a list or dictionary as content makes
  \<open>content.strip()\<close> raise; a type that is not a string is not among the valid types.
\<close>

fun booster_valid :: "json \<Rightarrow> json \<Rightarrow> py_exception + bool" where
  "booster_valid (JStr body) (JStr booster_type) =
     Inr (valid (validate_learning_booster body booster_type 100 300))"
| "booster_valid (JStr body) other =
     Inr False"
| "booster_valid (JList xs) t =
     Inl (AttributeError ([CHR 0x27] @ ''list'' @ [CHR 0x27] @ '' object has no attribute ''
           @ [CHR 0x27] @ ''strip'' @ [CHR 0x27]))"
| "booster_valid (JDict d) t =
     Inl (AttributeError ([CHR 0x27] @ ''dict'' @ [CHR 0x27] @ '' object has no attribute ''
           @ [CHR 0x27] @ ''strip'' @ [CHR 0x27]))"
| "booster_valid other t =
     Inl (TypeError (''object of type '' @ [CHR 0x27] @ type_name other @ [CHR 0x27]
           @ '' has no len()''))"

text \<open>
  \<open>all(... for b in boosters)\<close>: the boosters are taken in order, the first one that is not
  valid ends the iteration, and so does the first exception.
\<close>

fun boosters_all_valid :: "json list \<Rightarrow> py_exception + bool" where
  "boosters_all_valid [] = Inr True"
| "boosters_all_valid (b # rest) =
     (case subscript b ''content'' of
        Inl e \<Rightarrow> Inl e
      | Inr body \<Rightarrow>
          (case subscript b ''booster_type'' of
             Inl e \<Rightarrow> Inl e
           | Inr booster_type \<Rightarrow>
               (case booster_valid body booster_type of
                  Inl e \<Rightarrow> Inl e
                | Inr ok \<Rightarrow> if ok then boosters_all_valid rest else Inr False)))"

record BoosterGenerationResult =
  boosters :: "json list"
  booster_chapter_number :: int
  booster_chapter_title :: string
  booster_tokens_used :: int
  booster_model_used :: string
  booster_generation_attempts :: int
  booster_validation_passed :: bool

record BoosterGenerator =
  max_attempts :: int
  num_boosters :: int
  BOOSTER_GENERATION_SYSTEM_PROMPT :: string
  get_booster_generation_prompt :: "string \<Rightarrow> string \<Rightarrow> string \<Rightarrow> string \<Rightarrow> int \<Rightarrow> string"

text \<open>The constructor clamps the number of boosters to 2..3.\<close>

definition clamp_num_boosters :: "int \<Rightarrow> int" where
  "clamp_num_boosters n = max 2 (min 3 n)"

text \<open>The prompt each attempt builds anew, from the same arguments.\<close>

definition booster_prompt :: "BoosterGenerator \<Rightarrow> string \<Rightarrow> string \<Rightarrow> string" where
  "booster_prompt gen ch_content ch_title =
     (let sections = extract_sections ch_content;
          section_text = (if sections \<noteq> [] then hd sections else take 1000 ch_content)
      in get_booster_generation_prompt gen ch_content ch_title section_text ''analogy''
           (num_boosters gen))"

definition booster_request :: "BoosterGenerator \<Rightarrow> string \<Rightarrow> string \<Rightarrow> generation_request" where
  "booster_request gen model_id user_prompt =
     \<lparr> req_prompt = user_prompt,
       req_system_prompt = Some (BOOSTER_GENERATION_SYSTEM_PROMPT gen),
       req_model = model_id, req_max_tokens = 1024, req_temperature = 1 \<rparr>"

text \<open>The body of the \<open>try\<close> statement of one attempt.\<close>

definition booster_attempt ::
  "client_config \<Rightarrow> environment \<Rightarrow> json_parser \<Rightarrow> BoosterGenerator \<Rightarrow> string \<Rightarrow> string \<Rightarrow> int
     \<Rightarrow> string \<Rightarrow> int \<Rightarrow> client_state
     \<Rightarrow> (py_exception + BoosterGenerationResult) \<times> client_state" where
  "booster_attempt cfg env loads gen ch_content ch_title ch_number model_id attempt st =
     (let user_prompt = booster_prompt gen ch_content ch_title
      in case generate_with_rate_limit_buffer cfg env
                (booster_request gen model_id user_prompt) st of
           (Inl e, st1) \<Rightarrow> (Inl e, st1)
         | (Inr result, st1) \<Rightarrow>
             (case parse_boosters_json loads (strip (content result)) of
                Inl e \<Rightarrow> (Inl e, st1)
              | Inr parsed \<Rightarrow>
                  (case boosters_all_valid parsed of
                     Inl e \<Rightarrow> (Inl e, st1)
                   | Inr all_valid \<Rightarrow>
                       (Inr \<lparr> boosters = parsed,
                              booster_chapter_number = ch_number,
                              booster_chapter_title = ch_title,
                              booster_tokens_used = tokens_used result,
                              booster_model_used = model result,
                              booster_generation_attempts = attempt,
                              booster_validation_passed = all_valid \<rparr>, st1))))"

text \<open>
  The loop of \<open>generate_boosters\<close>: the first handler takes every \<open>ValueError\<close> the attempt
  raises, the second every \<open>GenerationError\<close>; anything else leaves the method.
\<close>

function generate_boosters_loop ::
  "client_config \<Rightarrow> environment \<Rightarrow> json_parser \<Rightarrow> BoosterGenerator \<Rightarrow> string \<Rightarrow> string \<Rightarrow> int
     \<Rightarrow> string \<Rightarrow> int \<Rightarrow> client_state
     \<Rightarrow> (py_exception + BoosterGenerationResult) \<times> client_state" where
  "generate_boosters_loop cfg env loads gen ch_content ch_title ch_number model_id attempt st =
     (if attempt < 1 \<or> max_attempts gen < attempt
      then (Inl (GenerationError (''Failed to generate boosters for Chapter ''
                   @ str_int ch_number @ '' after '' @ str_int (max_attempts gen)
                   @ '' attempts'')), st)
      else
        (case booster_attempt cfg env loads gen ch_content ch_title ch_number model_id attempt st of
           (Inr result, st1) \<Rightarrow> (Inr result, st1)
         | (Inl e, st1) \<Rightarrow>
             if is_value_error e
             then (if attempt \<ge> max_attempts gen
                   then (Inl (GenerationError (''Failed to parse booster JSON after ''
                           @ str_int (max_attempts gen) @ '' attempts'')), st1)
                   else generate_boosters_loop cfg env loads gen ch_content ch_title ch_number
                          model_id (attempt + 1) st1)
             else if is_generation_error e
             then (if attempt \<ge> max_attempts gen
                   then (Inl e, st1)
                   else generate_boosters_loop cfg env loads gen ch_content ch_title ch_number
                          model_id (attempt + 1) st1)
             else (Inl e, st1)))"
  by pat_completeness auto
termination
  by (relation "measure (\<lambda>(cfg, env, loads, gen, ch_content, ch_title, ch_number, model_id,
        attempt, st). nat (max_attempts gen + 1 - attempt))") auto

declare generate_boosters_loop.simps [simp del]

definition generate_boosters ::
  "client_config \<Rightarrow> environment \<Rightarrow> json_parser \<Rightarrow> BoosterGenerator \<Rightarrow> string \<Rightarrow> string \<Rightarrow> int
     \<Rightarrow> client_state \<Rightarrow> (py_exception + BoosterGenerationResult) \<times> client_state" where
  "generate_boosters cfg env loads gen ch_content ch_title ch_number st =
     (case get_model_for_task ''booster'' of
        Inl e \<Rightarrow> (Inl e, st)
      | Inr model_id \<Rightarrow>
          generate_boosters_loop cfg env loads gen ch_content ch_title ch_number model_id 1 st)"

subsection \<open>Kinds of parse failure, and test inputs for the generators\<close>

text \<open>
  What the parsed value is: an array or not, a string or not; and a quiz element that is
  no dictionary or lacks one of the required keys.
\<close>

fun is_json_list :: "json \<Rightarrow> bool" where
  "is_json_list (JList xs) = True"
| "is_json_list other = False"

fun is_json_string :: "json \<Rightarrow> bool" where
  "is_json_string (JStr s) = True"
| "is_json_string other = False"

fun bad_quiz_item :: "json \<Rightarrow> bool" where
  "bad_quiz_item (JDict d) = list_ex (\<lambda>f. f \<notin> set (map fst d)) required_fields"
| "bad_quiz_item other = True"

text \<open>
  \<open>garbled_env\<close> answers every call with the text "oops", \<open>keyless_env\<close> with the array of
  one empty object. \<open>sample_loads\<close> parses four texts and rejects every other one. The three
  generators below allow two attempts each.
\<close>

definition garbled_env :: environment where
  "garbled_env =
     \<lparr> provider = (\<lambda>k req. ApiResponse ((sized_response 0)\<lparr> response_text := ''oops'' \<rparr>)),
       random_value = (\<lambda>k. 1 / 2) \<rparr>"

definition keyless_env :: environment where
  "keyless_env =
     \<lparr> provider = (\<lambda>k req. ApiResponse ((sized_response 0)\<lparr> response_text := ''[{}]'' \<rparr>)),
       random_value = (\<lambda>k. 1 / 2) \<rparr>"

definition sample_loads :: json_parser where
  "sample_loads s =
     (if s = ''[]'' then Inr (JList [])
      else if s = ''{}'' then Inr (JDict [])
      else if s = ''[1]'' then Inr (JList [JInt 1])
      else if s = ''[{}]'' then Inr (JList [JDict []])
      else Inl (JSONDecodeError ''Expecting value: line 1 column 1 (char 0)''))"

definition sample_summary_generator :: SummaryGenerator where
  "sample_summary_generator =
     \<lparr> summary_max_generation_attempts = 2, summary_enforce_validation = True,
       SUMMARY_GENERATION_SYSTEM_PROMPT = ''You distil chapters.'',
       get_summary_generation_prompt = (\<lambda>body t. ''Summarise: '' @ t) \<rparr>"

definition sample_quiz_generator :: QuizGenerator where
  "sample_quiz_generator =
     \<lparr> quiz_max_generation_attempts = 2, quiz_enforce_validation = True,
       num_questions = clamp_num_questions 5,
       QUIZ_GENERATION_SYSTEM_PROMPT = ''You write quizzes.'',
       get_quiz_generation_prompt = (\<lambda>body t n. ''Quiz: '' @ t),
       untyped_validation = (\<lambda>qs. Inl (TypeError ''untyped'')) \<rparr>"

definition sample_booster_generator :: BoosterGenerator where
  "sample_booster_generator =
     \<lparr> max_attempts = 2, num_boosters = clamp_num_boosters 3,
       BOOSTER_GENERATION_SYSTEM_PROMPT = ''You write learning aids.'',
       get_booster_generation_prompt = (\<lambda>body t sec kind n. ''Boosters: '' @ t) \<rparr>"

section \<open>Properties of validate_summary\<close>

lemma summary_loop_eq:
  "summary_loop i ts (es, ws) = (es @ summary_errors i ts, ws @ summary_warnings i ts)"
  by (induction ts arbitrary: i es ws)
     (simp_all add: Let_def takeaway_errors_def takeaway_warnings_def)

lemma summary_errors_mem:
  "k < length ts \<Longrightarrow> e \<in> set (takeaway_errors (i + k) (ts ! k)) \<Longrightarrow> e \<in> set (summary_errors i ts)"
proof (induction ts arbitrary: i k)
  case Nil
  then show ?case by simp
next
  case (Cons t ts)
  show ?case
  proof (cases k)
    case 0
    with Cons.prems show ?thesis by simp
  next
    case (Suc j)
    with Cons.prems Cons.IH [of j "Suc i"] show ?thesis by simp
  qed
qed

lemma summary_warnings_mem:
  "k < length ts \<Longrightarrow> e \<in> set (takeaway_warnings (i + k) (ts ! k)) \<Longrightarrow> e \<in> set (summary_warnings i ts)"
proof (induction ts arbitrary: i k)
  case Nil
  then show ?case by simp
next
  case (Cons t ts)
  show ?case
  proof (cases k)
    case 0
    with Cons.prems show ?thesis by simp
  next
    case (Suc j)
    with Cons.prems Cons.IH [of j "Suc i"] show ?thesis by simp
  qed
qed

lemma summary_errors_none:
  "\<forall>t \<in> set ts. 50 \<le> length t \<and> strip t \<noteq> [] \<Longrightarrow> summary_errors i ts = []"
  by (induction ts arbitrary: i) (simp_all add: takeaway_errors_def)

lemma validate_summary_eq:
  "validate_summary ts lo hi =
     (let n = int (length ts);
          errs0 =
            (if n < lo
             then [''Too few takeaways: '' @ str_int n @ '' (minimum '' @ str_int lo @ '')'']
             else if n > hi
             then [''Too many takeaways: '' @ str_int n @ '' (maximum '' @ str_int hi @ '')'']
             else []);
          errs = errs0 @ summary_errors 1 ts
      in \<lparr> valid = (errs = []), errors = errs, warnings = summary_warnings 1 ts,
           metrics = [(''takeaway_count'', n)] \<rparr>)"
  by (simp add: validate_summary_def Let_def summary_loop_eq)

lemma str_nat_small: "str_nat 2 = ''2''" "str_nat 3 = ''3''" "str_nat 40 = ''40''" "str_nat 160 = ''160''"
  by (simp_all add: str_nat.simps digits_def)

text \<open>
  C8 (as amended). With the default bounds 3 and 5: a list of 3 to 5 takeaways, each
  non-blank and at least 50 characters long, is valid; a list of 2 takeaways is invalid
  with a "Too few takeaways" error; a takeaway of 40 characters makes the result invalid
  with its "too short" error; a non-blank takeaway of 160 characters among 3 to 5
  takeaways, the others non-blank and at least 50 characters long, gives a valid result
  with no error and a "too long" warning for it.
\<close>

theorem validate_summary_cases:
  "(3 \<le> length ts \<and> length ts \<le> 5 \<and> (\<forall>t \<in> set ts. strip t \<noteq> [] \<and> 50 \<le> length t)
      \<longrightarrow> valid (validate_summary ts 3 5))
   \<and> (length ts = 2
      \<longrightarrow> \<not> valid (validate_summary ts 3 5)
          \<and> ''Too few takeaways: 2 (minimum 3)'' \<in> set (errors (validate_summary ts 3 5)))
   \<and> (k < length ts \<and> length (ts ! k) = 40
      \<longrightarrow> \<not> valid (validate_summary ts 3 5)
          \<and> ''Takeaway '' @ str_nat (Suc k) @ '' too short: 40 chars (minimum 50)''
                \<in> set (errors (validate_summary ts 3 5)))
   \<and> (3 \<le> length ts \<and> length ts \<le> 5 \<and> k < length ts \<and> length (ts ! k) = 160
        \<and> strip (ts ! k) \<noteq> []
        \<and> (\<forall>j < length ts. j \<noteq> k \<longrightarrow> strip (ts ! j) \<noteq> [] \<and> 50 \<le> length (ts ! j))
      \<longrightarrow> valid (validate_summary ts 3 5)
          \<and> errors (validate_summary ts 3 5) = []
          \<and> ''Takeaway '' @ str_nat (Suc k) @ '' too long: 160 chars (recommended max 150)''
                \<in> set (warnings (validate_summary ts 3 5)))"
proof (intro conjI impI)
  assume a: "3 \<le> length ts \<and> length ts \<le> 5 \<and> (\<forall>t \<in> set ts. strip t \<noteq> [] \<and> 50 \<le> length t)"
  then have "summary_errors 1 ts = []" by (simp add: summary_errors_none)
  with a show "valid (validate_summary ts 3 5)"
    by (simp add: validate_summary_eq Let_def)
next
  assume "length ts = 2"
  then have e: "''Too few takeaways: 2 (minimum 3)'' \<in> set (errors (validate_summary ts 3 5))"
    by (simp add: validate_summary_eq Let_def str_int_def str_nat_small)
  then show "\<not> valid (validate_summary ts 3 5)"
    by (auto simp: validate_summary_eq Let_def)
  show "''Too few takeaways: 2 (minimum 3)'' \<in> set (errors (validate_summary ts 3 5))" by (rule e)
next
  assume a: "k < length ts \<and> length (ts ! k) = 40"
  then have "''Takeaway '' @ str_nat (Suc k) @ '' too short: 40 chars (minimum 50)''
      \<in> set (summary_errors 1 ts)"
    using summary_errors_mem [of k ts _ 1] by (simp add: takeaway_errors_def str_nat_small)
  then have e: "''Takeaway '' @ str_nat (Suc k) @ '' too short: 40 chars (minimum 50)''
      \<in> set (errors (validate_summary ts 3 5))"
    by (simp add: validate_summary_eq Let_def)
  then show "\<not> valid (validate_summary ts 3 5)"
    by (auto simp: validate_summary_eq Let_def)
  show "''Takeaway '' @ str_nat (Suc k) @ '' too short: 40 chars (minimum 50)''
      \<in> set (errors (validate_summary ts 3 5))" by (rule e)
next
  assume a: "3 \<le> length ts \<and> length ts \<le> 5 \<and> k < length ts \<and> length (ts ! k) = 160
        \<and> strip (ts ! k) \<noteq> []
        \<and> (\<forall>j < length ts. j \<noteq> k \<longrightarrow> strip (ts ! j) \<noteq> [] \<and> 50 \<le> length (ts ! j))"
  have "\<forall>t \<in> set ts. 50 \<le> length t \<and> strip t \<noteq> []"
  proof
    fix t assume "t \<in> set ts"
    then obtain j where j: "j < length ts" "t = ts ! j" by (auto simp: in_set_conv_nth)
    with a show "50 \<le> length t \<and> strip t \<noteq> []" by (cases "j = k") auto
  qed
  then have none: "summary_errors 1 ts = []" by (rule summary_errors_none)
  with a show "valid (validate_summary ts 3 5)" by (simp add: validate_summary_eq Let_def)
  from none a show "errors (validate_summary ts 3 5) = []" by (simp add: validate_summary_eq Let_def)
  from a have "''Takeaway '' @ str_nat (Suc k) @ '' too long: 160 chars (recommended max 150)''
      \<in> set (summary_warnings 1 ts)"
    using summary_warnings_mem [of k ts _ 1] by (simp add: takeaway_warnings_def str_nat_small)
  then show "''Takeaway '' @ str_nat (Suc k) @ '' too long: 160 chars (recommended max 150)''
      \<in> set (warnings (validate_summary ts 3 5))"
    by (simp add: validate_summary_eq Let_def)
qed


theorem validate_summary_cases_witness:
  "valid (validate_summary [replicate 60 (CHR ''a''), replicate 70 (CHR ''b''), replicate 80 (CHR ''c'')] 3 5)
   \<and> \<not> valid (validate_summary [replicate 60 (CHR ''a''), replicate 70 (CHR ''b'')] 3 5)
   \<and> \<not> valid (validate_summary [replicate 60 (CHR ''a''), replicate 40 (CHR ''b''), replicate 80 (CHR ''c'')] 3 5)
   \<and> ''Takeaway 2 too long: 160 chars (recommended max 150)''
         \<in> set (warnings (validate_summary [replicate 60 (CHR ''a''), replicate 160 (CHR ''b''), replicate 80 (CHR ''c'')] 3 5))"
proof -
  let ?a = "replicate 60 (CHR ''a'')" and ?b = "replicate 70 (CHR ''b'')" and ?c = "replicate 80 (CHR ''c'')"
  let ?s = "replicate 40 (CHR ''b'')" and ?l = "replicate 160 (CHR ''b'')"
  have nb: "strip ?a \<noteq> []" "strip ?b \<noteq> []" "strip ?c \<noteq> []" "strip ?l \<noteq> []"
    by code_simp+
  have h1: "3 \<le> length [?a, ?b, ?c] \<and> length [?a, ?b, ?c] \<le> 5
      \<and> (\<forall>t \<in> set [?a, ?b, ?c]. strip t \<noteq> [] \<and> 50 \<le> length t)"
    using nb by simp
  have h2: "length [?a, ?b] = 2" by simp
  have h3: "1 < length [?a, ?s, ?c] \<and> length ([?a, ?s, ?c] ! 1) = 40" by simp
  have h4: "3 \<le> length [?a, ?l, ?c] \<and> length [?a, ?l, ?c] \<le> 5 \<and> 1 < length [?a, ?l, ?c]
      \<and> length ([?a, ?l, ?c] ! 1) = 160 \<and> strip ([?a, ?l, ?c] ! 1) \<noteq> []
      \<and> (\<forall>j < length [?a, ?l, ?c]. j \<noteq> 1 \<longrightarrow>
            strip ([?a, ?l, ?c] ! j) \<noteq> [] \<and> 50 \<le> length ([?a, ?l, ?c] ! j))"
    using nb by (simp add: less_Suc_eq nth_Cons')
  have s2: "str_nat (Suc 1) = ''2''" by (simp add: str_nat.simps digits_def)
  show ?thesis
    using validate_summary_cases [of "[?a, ?b, ?c]" 0] validate_summary_cases [of "[?a, ?b]" 0]
      validate_summary_cases [of "[?a, ?s, ?c]" 1] validate_summary_cases [of "[?a, ?l, ?c]" 1]
      h1 h2 h3 h4 s2
    by simp
qed

text \<open>
  C8 as stated fails for a 160-character takeaway made of whitespace: the others conform,
  and the result is invalid with the error "Takeaway 1 is empty".
\<close>

theorem validate_summary_blank_takeaway_invalid:
  "length (replicate 160 (CHR '' '')) = 160
   \<and> \<not> valid (validate_summary
          [replicate 160 (CHR '' ''), replicate 60 (CHR ''a''), replicate 60 (CHR ''a'')] 3 5)
   \<and> errors (validate_summary
          [replicate 160 (CHR '' ''), replicate 60 (CHR ''a''), replicate 60 (CHR ''a'')] 3 5)
       = [''Takeaway 1 is empty'']"
  by code_simp
section \<open>Properties of the word counts and of validate_chapter\<close>

lemma sub_code_fences_id: "\<not> contains_code_fence s \<Longrightarrow> sub_code_fences s = s"
  by (induction s) (auto split: option.splits)

lemma sub_inline_code_id: "\<not> contains_inline_code s \<Longrightarrow> sub_inline_code s = s"
  by (induction s) auto

lemma sub_markdown_syntax_id:
  "set s \<inter> set markdown_syntax_chars = {} \<Longrightarrow> sub_markdown_syntax s = s"
  unfolding sub_markdown_syntax_def by (induction s) auto

lemma no_backtick_no_fence: "backtick \<notin> set s \<Longrightarrow> \<not> contains_code_fence s"
  by (induction s) (auto simp: startswith_def fence_def)

lemma no_backtick_no_inline: "backtick \<notin> set s \<Longrightarrow> \<not> contains_inline_code s"
  by (induction s) auto

lemma sub_code_fences_prefix:
  "backtick \<notin> set p \<Longrightarrow> sub_code_fences (p @ s) = p @ sub_code_fences s"
  by (induction p) (auto simp: startswith_def fence_def)

lemma sub_inline_code_prefix:
  "backtick \<notin> set p \<Longrightarrow> sub_inline_code (p @ s) = p @ sub_inline_code s"
  by (induction p) auto

lemma split_words_append_space:
  "isspace w \<Longrightarrow> split_words cur (p @ w # s) = split_words cur (p @ [w]) @ split_words [] s"
  by (induction p arbitrary: cur) auto

lemma str_split_append_space:
  "isspace w \<Longrightarrow> str_split (p @ w # s) = str_split (p @ [w]) @ str_split s"
  unfolding str_split_def by (rule split_words_append_space)

lemma split_words_word:
  "\<forall>c \<in> set w. \<not> isspace c \<Longrightarrow> cur @ w \<noteq> [] \<Longrightarrow> isspace sp \<Longrightarrow>
     split_words cur (w @ sp # s) = (cur @ w) # split_words [] s"
  by (induction w arbitrary: cur) auto

lemma isspace_space [simp]: "isspace (CHR '' '')"
  by (simp add: isspace_def)

lemma str_split_words_of:
  "w \<noteq> [] \<Longrightarrow> \<forall>c \<in> set w. \<not> isspace c \<Longrightarrow>
     str_split (words_of w n @ s) = replicate n w @ str_split s"
proof (induction n)
  case 0
  then show ?case by (simp add: words_of_def)
next
  case (Suc n)
  have "str_split (words_of w (Suc n) @ s) = split_words [] (w @ CHR '' '' # (words_of w n @ s))"
    by (simp add: words_of_def str_split_def)
  also have "\<dots> = w # split_words [] (words_of w n @ s)"
    using split_words_word [of w "[]" "CHR '' ''"] Suc.prems by simp
  finally show ?case using Suc by (simp add: str_split_def)
qed

lemma set_words_of: "set (words_of w n) \<subseteq> set w \<union> {CHR '' ''}"
  unfolding words_of_def by (induction n) auto


lemma validate_chapter_errors:
  "errors (validate_chapter md_parse doc) =
     validate_markdown_syntax md_parse doc @ validate_structure doc
     @ validate_word_count (validator_count_words doc)
     @ validate_reading_time (calculate_reading_time (validator_count_words doc))"
  by (simp add: validate_chapter_def Let_def)

lemma validate_chapter_valid:
  "valid (validate_chapter md_parse doc) = (errors (validate_chapter md_parse doc) = [])"
  by (simp add: validate_chapter_def Let_def)

lemma syntax_no_word_count:
  "e \<in> set (validate_markdown_syntax md_parse doc) \<Longrightarrow> \<not> mentions_word_count e"
  by (auto simp: validate_markdown_syntax_def mentions_word_count_def startswith_def
           split: sum.splits if_splits)

lemma structure_no_word_count:
  "e \<in> set (validate_structure doc) \<Longrightarrow> \<not> mentions_word_count e"
  by (auto simp: validate_structure_def mentions_word_count_def startswith_def split: if_splits)

lemma reading_time_no_word_count:
  "e \<in> set (validate_reading_time t) \<Longrightarrow> \<not> mentions_word_count e"
  by (auto simp: validate_reading_time_def mentions_word_count_def startswith_def split: if_splits)

lemma word_count_errors_mention:
  "e \<in> set (validate_word_count n) \<Longrightarrow> mentions_word_count e"
  by (auto simp: validate_word_count_def mentions_word_count_def startswith_def split: if_splits)

lemma word_count_errors_empty_iff:
  "validate_word_count n = [] \<longleftrightarrow> 800 \<le> n \<and> n \<le> 1200"
  by (auto simp: validate_word_count_def MIN_WORD_COUNT_def MAX_WORD_COUNT_def)

lemma validator_count_words_plain:
  assumes "\<not> contains_code_fence s" "\<not> contains_inline_code s"
    "set s \<inter> set markdown_syntax_chars = {}"
  shows "validator_count_words s = int (length (str_split s))"
  using assms
  by (simp add: validator_count_words_def Let_def sub_code_fences_id sub_inline_code_id
        sub_markdown_syntax_id)

lemma not_isspace_a: "\<forall>c \<in> set ''a''. \<not> isspace c"
  by (simp add: isspace_def)

lemma words_of_a_plain:
  "backtick \<notin> set (words_of ''a'' n)" "set (words_of ''a'' n) \<inter> set markdown_syntax_chars = {}"
  using set_words_of [of "''a''" n] by (auto simp: backtick_def markdown_syntax_chars_def)

lemma validator_count_words_of_a: "validator_count_words (words_of ''a'' n) = int n"
proof -
  have "str_split (words_of ''a'' n @ []) = replicate n ''a'' @ str_split []"
    using not_isspace_a by (intro str_split_words_of) simp_all
  then have "length (str_split (words_of ''a'' n)) = n" by (simp add: str_split_def)
  then show ?thesis
    using words_of_a_plain [of n]
    by (simp add: validator_count_words_plain no_backtick_no_fence no_backtick_no_inline)
qed

text \<open>
  C7. For every text whose counted words are fewer than 800 or more than 1200, the result
  of \<open>validate_chapter\<close> has an error that mentions the word count; for every text whose count
  lies in [800, 1200] no error of the result mentions it.
\<close>

theorem validate_chapter_word_count_error:
  "(validator_count_words doc < 800 \<or> 1200 < validator_count_words doc
      \<longrightarrow> (\<exists>e \<in> set (errors (validate_chapter md_parse doc)). mentions_word_count e))
   \<and> (800 \<le> validator_count_words doc \<and> validator_count_words doc \<le> 1200
      \<longrightarrow> (\<forall>e \<in> set (errors (validate_chapter md_parse doc)). \<not> mentions_word_count e))"
proof (intro conjI impI)
  assume out: "validator_count_words doc < 800 \<or> 1200 < validator_count_words doc"
  then have "validate_word_count (validator_count_words doc) \<noteq> []"
    by (auto simp: word_count_errors_empty_iff)
  then obtain e where e: "e \<in> set (validate_word_count (validator_count_words doc))"
    by (cases "validate_word_count (validator_count_words doc)") auto
  then have "mentions_word_count e" by (rule word_count_errors_mention)
  moreover from e have "e \<in> set (errors (validate_chapter md_parse doc))"
    by (simp add: validate_chapter_errors)
  ultimately show "\<exists>e \<in> set (errors (validate_chapter md_parse doc)). mentions_word_count e"
    by blast
next
  assume "800 \<le> validator_count_words doc \<and> validator_count_words doc \<le> 1200"
  then have none: "validate_word_count (validator_count_words doc) = []"
    by (simp add: word_count_errors_empty_iff)
  show "\<forall>e \<in> set (errors (validate_chapter md_parse doc)). \<not> mentions_word_count e"
    using syntax_no_word_count structure_no_word_count reading_time_no_word_count
    by (auto simp: validate_chapter_errors none)
qed

theorem validate_chapter_word_count_error_witness:
  "validator_count_words (words_of ''a'' 3) < 800
   \<and> filter mentions_word_count (errors (validate_chapter (\<lambda>c. Inr 1) (words_of ''a'' 3))) \<noteq> []
   \<and> 800 \<le> validator_count_words (words_of ''a'' 800)
   \<and> validator_count_words (words_of ''a'' 800) \<le> 1200
   \<and> filter mentions_word_count (errors (validate_chapter (\<lambda>c. Inr 1) (words_of ''a'' 800))) = []"
  using validate_chapter_word_count_error [of "words_of ''a'' 3" "\<lambda>c. Inr 1"]
    validate_chapter_word_count_error [of "words_of ''a'' 800" "\<lambda>c. Inr 1"]
  by (simp add: validator_count_words_of_a filter_empty_conv)

lemma reading_time_800_900:
  assumes "800 \<le> n" "n \<le> 900"
  shows "calculate_reading_time n = 4"
proof -
  have q: "n div 200 = 4" using assms by simp
  have r: "n mod 200 = n - 800" using q minus_div_mult_eq_mod [of n 200] by simp
  show ?thesis
    using assms by (auto simp: calculate_reading_time_def py_round_div_def AVERAGE_READING_SPEED_def Let_def q r)
qed

lemma count_lead_absent:
  "h \<notin> set s \<Longrightarrow> count_line_matches (Lit (h # p)) b s = 0"
  by (induction s arbitrary: b) (auto simp: match_line_def startswith_def)

lemma hash_notin_words: "CHR ''#'' \<notin> set (words_of ''a'' n)"
  using set_words_of [of "''a''" n] by auto

lemma sample_structure: "validate_structure (sample_chapter n) = []"
proof -
  have h1: "h1_count (sample_chapter n) = 1"
    by (simp add: h1_count_def sample_chapter_def match_line_def match_space_text_eol_def
          startswith_def isspace_def newline_def count_lead_absent hash_notin_words)
  have h2: "h2_count (sample_chapter n) = 1"
    by (simp add: h2_count_def sample_chapter_def match_line_def match_space_text_eol_def
          startswith_def isspace_def newline_def count_lead_absent hash_notin_words)
  show ?thesis by (simp add: validate_structure_def h1 h2)
qed

lemma sample_count: "validator_count_words (sample_chapter n) = int n + 2"
proof -
  let ?h = "''# T\<newline>## S\<newline>''"
  have nb: "backtick \<notin> set ?h" by (simp add: backtick_def)
  have "sub_inline_code (sub_code_fences (sample_chapter n)) = sample_chapter n"
    using words_of_a_plain(1) [of n] nb
    by (simp add: sample_chapter_def sub_code_fences_id sub_inline_code_id
          no_backtick_no_fence no_backtick_no_inline del: append.simps)
  moreover have "sub_markdown_syntax (sample_chapter n) = '' T\<newline> S\<newline>'' @ words_of ''a'' n"
    using words_of_a_plain(2) [of n]
    by (simp add: sample_chapter_def sub_markdown_syntax_def markdown_syntax_chars_def
          filter_id_conv disjoint_iff)
  moreover have "str_split ('' T\<newline> S'' @ CHR 0x0A # words_of ''a'' n)
      = str_split ('' T\<newline> S'' @ [CHR 0x0A]) @ str_split (words_of ''a'' n)"
    by (rule str_split_append_space) (simp add: isspace_def)
  moreover have "str_split (words_of ''a'' n @ []) = replicate n ''a'' @ str_split []"
    using not_isspace_a by (intro str_split_words_of) simp_all
  moreover have "str_split ('' T\<newline> S'' @ [CHR 0x0A]) = [''T'', ''S'']"
    by (simp add: str_split_def isspace_def)
  ultimately show ?thesis
    by (simp add: validator_count_words_def Let_def str_split_def)
qed

text \<open>
  C9. For every text that passes the structure checks and whose counted words lie in
  [800, 900], the derived reading time is at most 4 minutes, the word-count rule accepts
  the text, and \<open>validate_chapter\<close> reports the reading time as too short and returns
  \<open>valid = False\<close>.
\<close>

theorem reading_time_rejects_800_to_900:
  assumes "validate_structure doc = []"
    and "800 \<le> validator_count_words doc" and "validator_count_words doc \<le> 900"
  shows "calculate_reading_time (validator_count_words doc) \<le> 4
    \<and> validate_word_count (validator_count_words doc) = []
    \<and> ''Reading time too short: 4 min (minimum 5)'' \<in> set (errors (validate_chapter md_parse doc))
    \<and> \<not> valid (validate_chapter md_parse doc)"
proof -
  have rt: "calculate_reading_time (validator_count_words doc) = 4"
    using assms(2,3) by (rule reading_time_800_900)
  have s4: "str_int 4 = ''4''" "str_int 5 = ''5''"
    by (simp_all add: str_int_def str_nat.simps digits_def)
  have e: "''Reading time too short: 4 min (minimum 5)''
      \<in> set (errors (validate_chapter md_parse doc))"
    by (simp add: validate_chapter_errors rt validate_reading_time_def MIN_READING_TIME_def s4)
  then have "errors (validate_chapter md_parse doc) \<noteq> []" by auto
  with e rt assms show ?thesis
    by (simp add: validate_chapter_valid word_count_errors_empty_iff)
qed

theorem reading_time_rejects_800_to_900_witness:
  "calculate_reading_time (validator_count_words (sample_chapter 850)) \<le> 4
   \<and> validate_word_count (validator_count_words (sample_chapter 850)) = []
   \<and> ''Reading time too short: 4 min (minimum 5)''
        \<in> set (errors (validate_chapter (\<lambda>c. Inr 1) (sample_chapter 850)))
   \<and> \<not> valid (validate_chapter (\<lambda>c. Inr 1) (sample_chapter 850))"
  using reading_time_rejects_800_to_900 [of "sample_chapter 850" "\<lambda>c. Inr 1"]
  by (simp add: sample_structure sample_count)

section \<open>Properties of the generation client\<close>

lemma calculate_backoff_value:
  "\<not> float_overflow (retry_delay cfg * 2 ^ k) \<Longrightarrow>
     calculate_backoff cfg k u = Inr (real_of_int (retry_delay cfg) * 2 ^ k * u)"
  by (simp add: calculate_backoff_def uniform_def float_overflow_def)

lemma calculate_backoff_overflow:
  "float_overflow (retry_delay cfg * 2 ^ k) \<Longrightarrow>
     calculate_backoff cfg k u = Inl (OverflowError ''int too large to convert to float'')"
  by (simp add: calculate_backoff_def uniform_def)

lemma scaled_bounds:
  fixes m u :: real
  assumes "0 \<le> m" and "0 \<le> u" and "u \<le> 1"
  shows "0 \<le> m * u" and "m * u \<le> m"
proof -
  show "0 \<le> m * u" using assms(1,2) by (rule mult_nonneg_nonneg)
  have "m * u \<le> m * 1" using assms(3,1) by (rule mult_left_mono)
  then show "m * u \<le> m" by simp
qed

lemma calculate_backoff_bounds:
  assumes "0 \<le> retry_delay cfg" and "0 \<le> u" and "u \<le> 1"
    and "calculate_backoff cfg k u = Inr d"
  shows "0 \<le> d \<and> d \<le> real_of_int (retry_delay cfg) * 2 ^ k"
proof -
  have nov: "\<not> float_overflow (retry_delay cfg * 2 ^ k)"
    using assms(4) calculate_backoff_overflow [of cfg k u] by auto
  have d: "d = real_of_int (retry_delay cfg) * 2 ^ k * u"
    using assms(4) calculate_backoff_value [OF nov, of u] by simp
  have m: "0 \<le> real_of_int (retry_delay cfg) * 2 ^ k" using assms(1) by simp
  show ?thesis unfolding d using scaled_bounds [OF m assms(2,3)] by simp
qed

lemma sleep_max_small: "SLEEP_MAX < 2 ^ 1024 - 2 ^ 970"
proof -
  have "SLEEP_MAX \<le> 2 ^ 63" by (simp add: SLEEP_MAX_def)
  also have "(2::real) ^ 63 < 2 ^ 1024 - 2 ^ 970" by simp
  finally show ?thesis .
qed

lemma delay_in_range:
  assumes rd: "0 \<le> retry_delay cfg"
    and mx: "real_of_int (retry_delay cfg) * 2 ^ nat (max_retries cfg) \<le> SLEEP_MAX"
    and att: "int attempt < max_retries cfg"
  shows "real_of_int (retry_delay cfg) * 2 ^ attempt \<le> SLEEP_MAX"
    and "\<not> float_overflow (retry_delay cfg * 2 ^ attempt)"
proof -
  have le: "attempt \<le> nat (max_retries cfg)" using att by simp
  have "(2::real) ^ attempt \<le> 2 ^ nat (max_retries cfg)"
    using le by (intro power_increasing) simp_all
  then have "real_of_int (retry_delay cfg) * 2 ^ attempt
      \<le> real_of_int (retry_delay cfg) * 2 ^ nat (max_retries cfg)"
    using rd by (intro mult_left_mono) simp_all
  with mx show small: "real_of_int (retry_delay cfg) * 2 ^ attempt \<le> SLEEP_MAX" by simp
  have "real_of_int \<bar>retry_delay cfg * 2 ^ attempt\<bar> = real_of_int (retry_delay cfg) * 2 ^ attempt"
    using rd by (simp add: abs_mult)
  with small sleep_max_small
  have "real_of_int \<bar>retry_delay cfg * 2 ^ attempt\<bar> < real_of_int (2 ^ 1024 - 2 ^ 970)"
    by simp
  then have "\<bar>retry_delay cfg * 2 ^ attempt\<bar> < 2 ^ 1024 - 2 ^ 970"
    by (simp only: of_int_less_iff)
  then show "\<not> float_overflow (retry_delay cfg * 2 ^ attempt)"
    by (simp add: float_overflow_def)
qed

lemma retry_handler_sane:
  assumes rd: "0 \<le> retry_delay cfg"
    and mx: "real_of_int (retry_delay cfg) * 2 ^ nat (max_retries cfg) \<le> SLEEP_MAX"
    and u: "0 \<le> random_value env (random_draws st)" "random_value env (random_draws st) \<le> 1"
    and att: "int attempt < max_retries cfg"
  shows "retry_handler cfg env attempt what st =
     (if int attempt < max_retries cfg - 1
      then Continue (st\<lparr> random_draws := Suc (random_draws st),
              sleeps := sleeps st @ [real_of_int (retry_delay cfg) * 2 ^ attempt
                                       * random_value env (random_draws st)] \<rparr>)
      else Raise (GenerationError (what @ str_int (max_retries cfg) @ '' attempts''))
             (st\<lparr> random_draws := Suc (random_draws st) \<rparr>))"
proof -
  let ?u = "random_value env (random_draws st)"
  let ?m = "real_of_int (retry_delay cfg) * 2 ^ attempt"
  have nov: "\<not> float_overflow (retry_delay cfg * 2 ^ attempt)"
    using delay_in_range(2) [OF rd mx att] .
  have cb: "calculate_backoff cfg attempt ?u = Inr (?m * ?u)"
    using calculate_backoff_value [OF nov] .
  have m: "0 \<le> ?m" using rd by simp
  have "0 \<le> ?m * ?u" "?m * ?u \<le> ?m" using scaled_bounds [OF m u] by simp_all
  moreover have "?m \<le> SLEEP_MAX" using delay_in_range(1) [OF rd mx att] .
  ultimately have "time_sleep (?m * ?u) = None" by (simp add: time_sleep_def)
  then show ?thesis by (simp add: retry_handler_def cb Let_def)
qed

lemma generate_loop_exhausted:
  "max_retries cfg \<le> int attempt \<Longrightarrow>
     generate_loop cfg env req attempt st =
       (Inl (GenerationError (''Generation failed after '' @ str_int (max_retries cfg)
          @ '' attempts'')), st)"
  by (subst generate_loop.simps) simp

lemma generate_loop_rate_limited:
  assumes rd: "0 \<le> retry_delay cfg"
    and mx: "real_of_int (retry_delay cfg) * 2 ^ nat (max_retries cfg) \<le> SLEEP_MAX"
    and u: "\<forall>i. 0 \<le> random_value env i \<and> random_value env i \<le> 1"
    and "int attempt < max_retries cfg"
    and "\<forall>i < nat (max_retries cfg) - attempt.
           is_rate_limit (provider env (api_calls st + i) (api_request req))"
  shows "fst (generate_loop cfg env req attempt st) =
           Inl (GenerationError (''Rate limit exceeded after '' @ str_int (max_retries cfg)
             @ '' attempts''))
         \<and> api_calls (snd (generate_loop cfg env req attempt st)) =
           api_calls st + (nat (max_retries cfg) - attempt)"
  using assms(4,5)
proof (induction "nat (max_retries cfg) - attempt" arbitrary: attempt st)
  case 0
  then show ?case by simp
next
  case (Suc n)
  from Suc.prems(2) Suc.hyps(2)
  have "is_rate_limit (provider env (api_calls st + 0) (api_request req))"
    by (metis zero_less_Suc)
  then obtain e where e: "provider env (api_calls st) (api_request req) = RateLimitError e"
    by (cases "provider env (api_calls st) (api_request req)") auto
  have h: "retry_handler cfg env attempt ''Rate limit exceeded after '' (after_call req st) =
     (if int attempt < max_retries cfg - 1
      then Continue ((after_call req st)\<lparr> random_draws := Suc (random_draws (after_call req st)),
              sleeps := sleeps (after_call req st) @ [real_of_int (retry_delay cfg) * 2 ^ attempt
                 * random_value env (random_draws (after_call req st))] \<rparr>)
      else Raise (GenerationError (''Rate limit exceeded after '' @ str_int (max_retries cfg)
                    @ '' attempts''))
             ((after_call req st)\<lparr> random_draws := Suc (random_draws (after_call req st)) \<rparr>))"
    using u Suc.prems(1) by (intro retry_handler_sane [OF rd mx]) simp_all
  show ?case
  proof (cases "int attempt < max_retries cfg - 1")
    case False
    with Suc.prems have last: "nat (max_retries cfg) - attempt = 1" by simp
    have run: "generate_loop cfg env req attempt st =
        (Inl (GenerationError (''Rate limit exceeded after '' @ str_int (max_retries cfg)
                    @ '' attempts'')),
         (after_call req st)\<lparr> random_draws := Suc (random_draws (after_call req st)) \<rparr>)"
      using Suc.prems(1) False e by (subst generate_loop.simps) (simp add: h)
    show ?thesis using last by (simp add: run after_call_def)
  next
    case True
    let ?st1 = "(after_call req st)\<lparr> random_draws := Suc (random_draws (after_call req st)),
              sleeps := sleeps (after_call req st) @ [real_of_int (retry_delay cfg) * 2 ^ attempt
                 * random_value env (random_draws (after_call req st))] \<rparr>"
    have n: "n = nat (max_retries cfg) - Suc attempt" using Suc.hyps(2) by simp
    have calls: "api_calls ?st1 = Suc (api_calls st)" by (simp add: after_call_def)
    have rl: "\<forall>i < nat (max_retries cfg) - Suc attempt.
            is_rate_limit (provider env (api_calls ?st1 + i) (api_request req))"
    proof (intro allI impI)
      fix i assume "i < nat (max_retries cfg) - Suc attempt"
      then have "Suc i < nat (max_retries cfg) - attempt" by simp
      with Suc.prems(2)
      have "is_rate_limit (provider env (api_calls st + Suc i) (api_request req))" by blast
      then show "is_rate_limit (provider env (api_calls ?st1 + i) (api_request req))"
        by (simp add: calls)
    qed
    have inr: "int (Suc attempt) < max_retries cfg" using True by simp
    have ih: "fst (generate_loop cfg env req (Suc attempt) ?st1) =
           Inl (GenerationError (''Rate limit exceeded after '' @ str_int (max_retries cfg)
             @ '' attempts''))
         \<and> api_calls (snd (generate_loop cfg env req (Suc attempt) ?st1)) =
           api_calls ?st1 + (nat (max_retries cfg) - Suc attempt)"
      using Suc.hyps(1) [OF n inr rl] .
    have step: "generate_loop cfg env req attempt st
        = generate_loop cfg env req (Suc attempt) ?st1"
      using Suc.prems True e by (subst generate_loop.simps) (simp add: h)
    show ?thesis unfolding step using ih calls Suc.prems True by simp
  qed
qed


text \<open>
  Outside such configurations the handler itself can raise: a negative delay makes
  \<open>time.sleep\<close> raise after the first failed call, and a base delay beyond the float range
  makes the backoff computation raise.
\<close>

lemma negative_delay_raises_value_error:
  "raised (generate \<lparr> max_retries = 3, retry_delay = - 5 \<rparr> rate_limited_env sample_request
      initial_client_state) = Some (ValueError ''sleep length must be non-negative'')
   \<and> api_calls (snd (generate \<lparr> max_retries = 3, retry_delay = - 5 \<rparr> rate_limited_env
        sample_request initial_client_state)) = 1"
  by (simp add: generate_def generate_loop.simps rate_limited_env_def initial_client_state_def
        after_call_def retry_handler_def calculate_backoff_def uniform_def float_overflow_def
        time_sleep_def raised_def Let_def)

lemma huge_delay_raises_overflow_error:
  "raised (generate \<lparr> max_retries = 1, retry_delay = 2 ^ 1024 \<rparr> rate_limited_env sample_request
      initial_client_state) = Some (OverflowError ''int too large to convert to float'')"
  by (simp add: generate_def generate_loop.simps rate_limited_env_def initial_client_state_def
        after_call_def retry_handler_def calculate_backoff_def uniform_def float_overflow_def
        raised_def Let_def)

text \<open>
  C4. With a non-negative base delay and a random draw \<open>u\<close> in [0, 1], the backoff delay
  computed for the 0-indexed attempt \<open>k\<close> lies in [0, retry_delay * 2^k]: whenever a delay is
  returned, and one is returned whenever retry_delay * 2^k converts to a float. For a
  configuration whose base delay is non-negative and whose delays the client can sleep
  (retry_delay * 2^max_retries is at most \<open>SLEEP_MAX\<close>): if the next \<open>max_retries\<close> provider
  calls all fail with a rate-limit error, \<open>generate\<close> raises \<open>GenerationError\<close> ("Rate limit
  exceeded after ... attempts"; "Generation failed after ... attempts" when \<open>max_retries\<close> is
  not positive) and has made exactly \<open>max_retries\<close> provider calls, none after the last
  failure.
\<close>

theorem backoff_bounded_and_rate_limit_gives_up:
  "(0 \<le> retry_delay cfg \<and> 0 \<le> u \<and> u \<le> 1 \<and> \<not> float_overflow (retry_delay cfg * 2 ^ k)
      \<longrightarrow> (\<exists>d. calculate_backoff cfg k u = Inr d
             \<and> 0 \<le> d \<and> d \<le> real_of_int (retry_delay cfg) * 2 ^ k))
   \<and> (0 \<le> retry_delay cfg \<and> 0 \<le> u \<and> u \<le> 1 \<and> calculate_backoff cfg k u = Inr d
      \<longrightarrow> 0 \<le> d \<and> d \<le> real_of_int (retry_delay cfg) * 2 ^ k)
   \<and> (0 \<le> retry_delay cfg
       \<and> real_of_int (retry_delay cfg) * 2 ^ nat (max_retries cfg) \<le> SLEEP_MAX
       \<and> (\<forall>i. 0 \<le> random_value env i \<and> random_value env i \<le> 1)
       \<and> (\<forall>i < nat (max_retries cfg).
             is_rate_limit (provider env (api_calls st + i) (api_request req)))
      \<longrightarrow> fst (generate cfg env req st) =
            Inl (GenerationError
              ((if 0 < max_retries cfg then ''Rate limit exceeded after ''
                else ''Generation failed after '')
               @ str_int (max_retries cfg) @ '' attempts''))
          \<and> api_calls (snd (generate cfg env req st)) = api_calls st + nat (max_retries cfg))"
proof (intro conjI impI)
  assume a: "0 \<le> retry_delay cfg \<and> 0 \<le> u \<and> u \<le> 1 \<and> \<not> float_overflow (retry_delay cfg * 2 ^ k)"
  then have v: "calculate_backoff cfg k u = Inr (real_of_int (retry_delay cfg) * 2 ^ k * u)"
    by (simp add: calculate_backoff_value)
  with a calculate_backoff_bounds [of cfg u k "real_of_int (retry_delay cfg) * 2 ^ k * u"]
  show "\<exists>d. calculate_backoff cfg k u = Inr d
             \<and> 0 \<le> d \<and> d \<le> real_of_int (retry_delay cfg) * 2 ^ k"
    by blast
next
  assume a: "0 \<le> retry_delay cfg \<and> 0 \<le> u \<and> u \<le> 1 \<and> calculate_backoff cfg k u = Inr d"
  then show "0 \<le> d" and "d \<le> real_of_int (retry_delay cfg) * 2 ^ k"
    using calculate_backoff_bounds [of cfg u k d] by simp_all
next
  assume a: "0 \<le> retry_delay cfg
       \<and> real_of_int (retry_delay cfg) * 2 ^ nat (max_retries cfg) \<le> SLEEP_MAX
       \<and> (\<forall>i. 0 \<le> random_value env i \<and> random_value env i \<le> 1)
       \<and> (\<forall>i < nat (max_retries cfg).
             is_rate_limit (provider env (api_calls st + i) (api_request req)))"
  show "fst (generate cfg env req st) =
            Inl (GenerationError
              ((if 0 < max_retries cfg then ''Rate limit exceeded after ''
                else ''Generation failed after '')
               @ str_int (max_retries cfg) @ '' attempts''))"
  proof (cases "0 < max_retries cfg")
    case True
    with a generate_loop_rate_limited [of cfg env 0 st req] show ?thesis
      by (simp add: generate_def)
  next
    case False
    then show ?thesis by (simp add: generate_def generate_loop_exhausted)
  qed
  show "api_calls (snd (generate cfg env req st)) = api_calls st + nat (max_retries cfg)"
  proof (cases "0 < max_retries cfg")
    case True
    with a generate_loop_rate_limited [of cfg env 0 st req] show ?thesis
      by (simp add: generate_def)
  next
    case False
    then show ?thesis by (simp add: generate_def generate_loop_exhausted)
  qed
qed

theorem backoff_bounded_and_rate_limit_gives_up_witness:
  "0 \<le> retry_delay default_config \<and> (0::real) \<le> 1 / 2 \<and> (1 / 2 :: real) \<le> 1
   \<and> \<not> float_overflow (retry_delay default_config * 2 ^ 2)
   \<and> calculate_backoff default_config 2 (1 / 2) = Inr 10
   \<and> (0::real) \<le> 10 \<and> (10::real) \<le> real_of_int (retry_delay default_config) * 2 ^ 2
   \<and> real_of_int (retry_delay default_config) * 2 ^ nat (max_retries default_config) \<le> SLEEP_MAX
   \<and> (\<forall>i. 0 \<le> random_value rate_limited_env i \<and> random_value rate_limited_env i \<le> 1)
   \<and> is_rate_limit (provider rate_limited_env 0 (api_request sample_request))
   \<and> is_rate_limit (provider rate_limited_env 1 (api_request sample_request))
   \<and> is_rate_limit (provider rate_limited_env 2 (api_request sample_request))
   \<and> fst (generate default_config rate_limited_env sample_request initial_client_state)
       = Inl (GenerationError ''Rate limit exceeded after 3 attempts'')
   \<and> api_calls (snd (generate default_config rate_limited_env sample_request
        initial_client_state)) = 3"
  using backoff_bounded_and_rate_limit_gives_up
    [of default_config "1 / 2" 2 10 rate_limited_env initial_client_state sample_request]
  by (simp add: default_config_def rate_limited_env_def initial_client_state_def
        str_int_def str_nat.simps digits_def SLEEP_MAX_def float_overflow_def
        calculate_backoff_def uniform_def)

section \<open>Properties of the chapter generator\<close>

subsection \<open>The requests a run sends\<close>

lemma retry_handler_requests:
  "retry_handler cfg env attempt what st = Continue st2 \<Longrightarrow> requests st2 = requests st"
  "retry_handler cfg env attempt what st = Raise err st2 \<Longrightarrow> requests st2 = requests st"
  by (auto simp: retry_handler_def Let_def split: sum.splits if_splits option.splits)

lemma generate_loop_requests:
  "\<exists>n. requests (snd (generate_loop cfg env req attempt st))
          = requests st @ replicate n (api_request req)
       \<and> (int attempt < max_retries cfg \<longrightarrow> 0 < n)"
proof (induction cfg env req attempt st rule: generate_loop.induct)
  case (1 cfg env req attempt st)
  show ?case
  proof (cases "max_retries cfg \<le> int attempt")
    case True
    then have "generate_loop cfg env req attempt st =
       (Inl (GenerationError (''Generation failed after '' @ str_int (max_retries cfg)
          @ '' attempts'')), st)"
      by (subst generate_loop.simps) simp
    then have "requests (snd (generate_loop cfg env req attempt st))
        = requests st @ replicate 0 (api_request req)" by simp
    with True show ?thesis by (intro exI [of _ 0]) simp
  next
    case False
    have one: "requests (after_call req st) = requests st @ replicate 1 (api_request req)"
      by (simp add: after_call_def)
    have cont: "\<exists>n. requests (snd (generate_loop cfg env req (Suc attempt) st2))
          = requests st @ replicate n (api_request req) \<and> 0 < n"
      if h: "retry_handler cfg env attempt what (after_call req st) = Continue st2"
        and ih: "\<exists>n. requests (snd (generate_loop cfg env req (Suc attempt) st2))
              = requests st2 @ replicate n (api_request req)
            \<and> (int (Suc attempt) < max_retries cfg \<longrightarrow> 0 < n)"
      for what st2
    proof -
      from ih obtain n where n: "requests (snd (generate_loop cfg env req (Suc attempt) st2))
              = requests st2 @ replicate n (api_request req)" by blast
      have "requests st2 = requests st @ replicate 1 (api_request req)"
        using retry_handler_requests(1) [OF h] one by simp
      with n have "requests (snd (generate_loop cfg env req (Suc attempt) st2))
          = requests st @ replicate (Suc n) (api_request req)"
        by (simp add: replicate_append_same)
      then show ?thesis by (intro exI [of _ "Suc n"]) simp
    qed
    have stop: "\<exists>n. requests st2 = requests st @ replicate n (api_request req) \<and> 0 < n"
      if h: "retry_handler cfg env attempt what (after_call req st) = Raise err st2"
      for what err st2
      using retry_handler_requests(2) [OF h] one by (intro exI [of _ 1]) simp
    have here: "\<exists>n. requests (after_call req st) = requests st @ replicate n (api_request req) \<and> 0 < n"
      using one by (intro exI [of _ 1]) simp
    have "\<exists>n. requests (snd (generate_loop cfg env req attempt st))
          = requests st @ replicate n (api_request req) \<and> 0 < n"
    proof (cases "provider env (api_calls st) (api_request req)")
      case (ApiResponse response)
      then have "requests (snd (generate_loop cfg env req attempt st)) = requests (after_call req st)"
        using False by (subst generate_loop.simps) (simp add: Let_def)
      with here show ?thesis by simp
    next
      case (RateLimitError e)
      show ?thesis
      proof (cases "retry_handler cfg env attempt ''Rate limit exceeded after '' (after_call req st)")
        case (Continue st2)
        have run: "generate_loop cfg env req attempt st = generate_loop cfg env req (Suc attempt) st2"
          using False RateLimitError Continue by (subst generate_loop.simps) simp
        show ?thesis unfolding run
          using cont [OF Continue] "1.IH"(1) [OF False RateLimitError Continue] by blast
      next
        case (Raise err st2)
        have run: "generate_loop cfg env req attempt st = (Inl err, st2)"
          using False RateLimitError Raise by (subst generate_loop.simps) simp
        show ?thesis unfolding run using stop [OF Raise] by simp
      qed
    next
      case (APIConnectionError e)
      show ?thesis
      proof (cases "retry_handler cfg env attempt ''Connection failed after '' (after_call req st)")
        case (Continue st2)
        have run: "generate_loop cfg env req attempt st = generate_loop cfg env req (Suc attempt) st2"
          using False APIConnectionError Continue by (subst generate_loop.simps) simp
        show ?thesis unfolding run
          using cont [OF Continue] "1.IH"(2) [OF False APIConnectionError Continue] by blast
      next
        case (Raise err st2)
        have run: "generate_loop cfg env req attempt st = (Inl err, st2)"
          using False APIConnectionError Raise by (subst generate_loop.simps) simp
        show ?thesis unfolding run using stop [OF Raise] by simp
      qed
    next
      case (APIError e)
      then have "requests (snd (generate_loop cfg env req attempt st)) = requests (after_call req st)"
        using False by (subst generate_loop.simps) simp
      with here show ?thesis by simp
    next
      case (UnexpectedError e)
      then have "requests (snd (generate_loop cfg env req attempt st)) = requests (after_call req st)"
        using False by (subst generate_loop.simps) simp
      with here show ?thesis by simp
    qed
    then show ?thesis by blast
  qed
qed

lemma buffer_requests:
  "\<exists>n. requests (snd (generate_with_rate_limit_buffer cfg env req st))
          = requests st @ replicate n (api_request req)
       \<and> (0 < max_retries cfg \<longrightarrow> 0 < n)"
proof -
  have "requests (snd (generate_with_rate_limit_buffer cfg env req st))
      = requests (snd (generate_loop cfg env req 0 st))"
    by (simp add: generate_with_rate_limit_buffer_def generate_def split: prod.splits sum.splits)
  then show ?thesis using generate_loop_requests [of cfg env req 0 st] by simp
qed

lemma buffer_returns_positive:
  "generate_with_rate_limit_buffer cfg env req st = (Inr result, st1) \<Longrightarrow> 0 < max_retries cfg"
  by (rule ccontr)
     (simp add: generate_with_rate_limit_buffer_def generate_def generate_loop.simps)

lemma chapter_loop_requests:
  "\<exists>ys. requests (snd (generate_chapter_loop cfg env gen chapter_def model_id p attempt st))
           = requests st @ ys
        \<and> (1 \<le> attempt \<and> attempt \<le> max_generation_attempts gen \<and> 0 < max_retries cfg
             \<longrightarrow> ys \<noteq> [] \<and> hd ys = api_request (chapter_request gen model_id p))"
proof (induction "nat (max_generation_attempts gen + 1 - attempt)" arbitrary: p attempt st)
  case 0
  then have out: "attempt < 1 \<or> max_generation_attempts gen < attempt" by simp
  then have "generate_chapter_loop cfg env gen chapter_def model_id p attempt st
      = (Inl (GenerationError (''Failed to generate Chapter '' @ str_int (number chapter_def)
                   @ '' after '' @ str_int (max_generation_attempts gen) @ '' attempts'')), st)"
    by (subst generate_chapter_loop.simps) simp
  with out show ?case by (intro exI [of _ "[]"]) auto
next
  case (Suc m)
  let ?x = "api_request (chapter_request gen model_id p)"
  let ?call = "generate_with_rate_limit_buffer cfg env (chapter_request gen model_id p) st"
  let ?run = "generate_chapter_loop cfg env gen chapter_def model_id p attempt st"
  show ?case
  proof (cases "attempt < 1 \<or> max_generation_attempts gen < attempt")
    case True
    then have "?run
      = (Inl (GenerationError (''Failed to generate Chapter '' @ str_int (number chapter_def)
                   @ '' after '' @ str_int (max_generation_attempts gen) @ '' attempts'')), st)"
      by (subst generate_chapter_loop.simps) simp
    with True show ?thesis by (intro exI [of _ "[]"]) auto
  next
    case False
    obtain n where n: "requests (snd ?call) = requests st @ replicate n ?x"
      and npos: "0 < max_retries cfg \<longrightarrow> 0 < n"
      using buffer_requests [of cfg env "chapter_request gen model_id p" st] by blast
    have m: "m = nat (max_generation_attempts gen + 1 - (attempt + 1))"
      using Suc.hyps(2) by simp
    have rec: "\<exists>ys. requests (snd (generate_chapter_loop cfg env gen chapter_def model_id q
                  (attempt + 1) (snd ?call))) = requests (snd ?call) @ ys" for q
      using Suc.hyps(1) [OF m, of q "snd ?call"] by blast
    have alt: "(\<exists>q. ?run = generate_chapter_loop cfg env gen chapter_def model_id q
                  (attempt + 1) (snd ?call)) \<or> snd ?run = snd ?call"
    proof (cases ?call)
      case (Pair r st1)
      show ?thesis
      proof (cases r)
        case (Inr result)
        show ?thesis
          using False Pair Inr
          by (subst (1 2) generate_chapter_loop.simps) (auto simp: Let_def)
      next
        case (Inl e)
        show ?thesis
          using False Pair Inl
          by (subst (1 2) generate_chapter_loop.simps) (cases e; auto simp: Let_def)
      qed
    qed
    have "\<exists>zs. requests (snd ?run) = requests st @ replicate n ?x @ zs"
    proof (rule disjE [OF alt])
      assume "\<exists>q. ?run = generate_chapter_loop cfg env gen chapter_def model_id q
                  (attempt + 1) (snd ?call)"
      then obtain q where q: "?run = generate_chapter_loop cfg env gen chapter_def model_id q
                  (attempt + 1) (snd ?call)" by blast
      from rec [of q] obtain ys where
        "requests (snd (generate_chapter_loop cfg env gen chapter_def model_id q
                  (attempt + 1) (snd ?call))) = requests (snd ?call) @ ys" by blast
      then show ?thesis by (simp add: q n)
    next
      assume "snd ?run = snd ?call"
      then show ?thesis by (simp add: n)
    qed
    then obtain zs where zs: "requests (snd ?run) = requests st @ replicate n ?x @ zs" by blast
    show ?thesis
    proof (intro exI [of _ "replicate n ?x @ zs"] conjI impI)
      show "requests (snd ?run) = requests st @ replicate n ?x @ zs" by (rule zs)
    next
      assume "1 \<le> attempt \<and> attempt \<le> max_generation_attempts gen \<and> 0 < max_retries cfg"
      with npos have "0 < n" by simp
      then obtain k where "n = Suc k" by (cases n) auto
      then show "replicate n ?x @ zs \<noteq> []" and "hd (replicate n ?x @ zs) = ?x" by simp_all
    qed
  qed
qed

lemma next_request_carries_prompt:
  assumes "attempt + 1 \<le> max_generation_attempts gen" and "0 \<le> attempt"
    and "0 < max_retries cfg"
  shows "length (requests st) <
           length (requests (snd (generate_chapter_loop cfg env gen chapter_def model_id p
              (attempt + 1) st)))
       \<and> requests (snd (generate_chapter_loop cfg env gen chapter_def model_id p
              (attempt + 1) st)) ! length (requests st)
           = api_request (chapter_request gen model_id p)"
proof -
  obtain ys where ys: "requests (snd (generate_chapter_loop cfg env gen chapter_def model_id p
        (attempt + 1) st)) = requests st @ ys"
    and hd: "ys \<noteq> []" "hd ys = api_request (chapter_request gen model_id p)"
    using chapter_loop_requests [of cfg env gen chapter_def model_id p "attempt + 1" st] assms
    by auto
  from hd obtain y rest where "ys = y # rest" by (cases ys) auto
  with hd show ?thesis by (simp add: ys)
qed

subsection \<open>Word-count enforcement\<close>

lemma chapter_count_words_of_a: "chapter_count_words (words_of ''a'' n) = int n"
proof -
  have "str_split (words_of ''a'' n @ []) = replicate n ''a'' @ str_split []"
    using not_isspace_a by (intro str_split_words_of) simp_all
  then show ?thesis by (simp add: chapter_count_words_def str_split_def)
qed

lemma generate_success:
  "0 < max_retries cfg \<Longrightarrow> provider env (api_calls st) (api_request req) = ApiResponse response \<Longrightarrow>
   generate_with_rate_limit_buffer cfg env req st =
     (Inr (result_of_response response),
      st\<lparr> api_calls := Suc (api_calls st),
          requests := requests st @ [api_request req],
          total_tokens_used := total_tokens_used st + (input_tokens response + output_tokens response),
          sleeps := sleeps st @ [RATE_LIMIT_BUFFER] \<rparr>)"
  by (simp add: generate_with_rate_limit_buffer_def generate_def generate_loop.simps Let_def
        after_call_def)

text \<open>
  C5. With word-count enforcement on, consider an attempt (numbered from 1, within the
  allowed attempts) whose call to the client returns a text. If the text has fewer than 800
  words and attempts remain, the generator goes on to the next attempt with the prompt
  extended by the "too short" emphasis, which asks for more depth, and the next request it
  sends to the provider carries that extended prompt; if it has more than 1200 words and
  attempts remain, likewise with the "too long" emphasis, which asks to be more concise.
  If the count is out of range on the last allowed attempt, the chapter is returned,
  nothing is raised, and \<open>validation_passed\<close> is false. If the count is in [800, 1200], the
  result has \<open>generation_attempts\<close> equal to the attempt number and \<open>validation_passed\<close>
  true. \<open>st_next\<close> is the client state the attempt's call leaves; the request at position
  \<open>length (requests st_next)\<close> of the log is the first one sent after it.
\<close>

theorem chapter_word_count_enforcement:
  assumes "enforce_word_count gen"
    and "1 \<le> attempt" and "attempt \<le> max_generation_attempts gen"
    and "generate_with_rate_limit_buffer cfg env (chapter_request gen model_id user_prompt) st
           = (Inr result, st_next)"
  shows
    "(chapter_count_words (content result) < 800 \<and> attempt < max_generation_attempts gen
        \<longrightarrow> generate_chapter_loop cfg env gen chapter_def model_id user_prompt attempt st
            = generate_chapter_loop cfg env gen chapter_def model_id
                (user_prompt @ ''\<newline>\<newline>**CRITICAL**: The previous attempt was too short (''
                   @ str_int (chapter_count_words (content result))
                   @ '' words). You MUST generate at least 800 words. Target is ''
                   @ str_int (word_count_target chapter_def)
                   @ '' words. Add more depth, examples, and explanations to reach the required length.'')
                (attempt + 1) st_next
          \<and> length (requests st_next)
              < length (requests (snd (generate_chapter_loop cfg env gen chapter_def model_id
                   user_prompt attempt st)))
          \<and> req_prompt (requests (snd (generate_chapter_loop cfg env gen chapter_def model_id
                   user_prompt attempt st)) ! length (requests st_next))
              = user_prompt @ ''\<newline>\<newline>**CRITICAL**: The previous attempt was too short (''
                   @ str_int (chapter_count_words (content result))
                   @ '' words). You MUST generate at least 800 words. Target is ''
                   @ str_int (word_count_target chapter_def)
                   @ '' words. Add more depth, examples, and explanations to reach the required length.'')
     \<and> (1200 < chapter_count_words (content result) \<and> attempt < max_generation_attempts gen
        \<longrightarrow> generate_chapter_loop cfg env gen chapter_def model_id user_prompt attempt st
            = generate_chapter_loop cfg env gen chapter_def model_id
                (user_prompt @ ''\<newline>\<newline>**CRITICAL**: The previous attempt was too long (''
                   @ str_int (chapter_count_words (content result))
                   @ '' words). You MUST stay under 1200 words. Target is ''
                   @ str_int (word_count_target chapter_def)
                   @ '' words. Be more concise and focused on core concepts.'')
                (attempt + 1) st_next
          \<and> length (requests st_next)
              < length (requests (snd (generate_chapter_loop cfg env gen chapter_def model_id
                   user_prompt attempt st)))
          \<and> req_prompt (requests (snd (generate_chapter_loop cfg env gen chapter_def model_id
                   user_prompt attempt st)) ! length (requests st_next))
              = user_prompt @ ''\<newline>\<newline>**CRITICAL**: The previous attempt was too long (''
                   @ str_int (chapter_count_words (content result))
                   @ '' words). You MUST stay under 1200 words. Target is ''
                   @ str_int (word_count_target chapter_def)
                   @ '' words. Be more concise and focused on core concepts.'')
     \<and> ((chapter_count_words (content result) < 800 \<or> 1200 < chapter_count_words (content result))
          \<and> attempt = max_generation_attempts gen
        \<longrightarrow> raised (generate_chapter_loop cfg env gen chapter_def model_id user_prompt attempt st) = None
          \<and> map_option chapter_content
                (returned (generate_chapter_loop cfg env gen chapter_def model_id user_prompt attempt st))
              = Some (content result)
          \<and> map_option validation_passed
                (returned (generate_chapter_loop cfg env gen chapter_def model_id user_prompt attempt st))
              = Some False)
     \<and> (800 \<le> chapter_count_words (content result) \<and> chapter_count_words (content result) \<le> 1200
        \<longrightarrow> map_option generation_attempts
                (returned (generate_chapter_loop cfg env gen chapter_def model_id user_prompt attempt st))
              = Some attempt
          \<and> map_option validation_passed
                (returned (generate_chapter_loop cfg env gen chapter_def model_id user_prompt attempt st))
              = Some True)"
proof -
  let ?wc = "chapter_count_words (content result)"
  let ?run = "generate_chapter_loop cfg env gen chapter_def model_id user_prompt attempt st"
  have step: "?run =
      (if \<not> is_word_count_valid ?wc \<and> attempt < max_generation_attempts gen
       then generate_chapter_loop cfg env gen chapter_def model_id
              (add_word_count_emphasis user_prompt ?wc (word_count_target chapter_def))
              (attempt + 1) st_next
       else (Inr \<lparr> chapter_content = content result, chapter_number = number chapter_def,
                   chapter_title = title chapter_def, word_count = ?wc,
                   chapter_tokens_used = tokens_used result, model_used = model result,
                   generation_attempts = attempt,
                   validation_passed = is_word_count_valid ?wc \<rparr>, st_next))"
    using assms by (subst generate_chapter_loop.simps) (simp add: Let_def)
  have short: "?wc < 800 \<Longrightarrow> attempt < max_generation_attempts gen \<Longrightarrow> ?run =
      generate_chapter_loop cfg env gen chapter_def model_id
        (add_word_count_emphasis user_prompt ?wc (word_count_target chapter_def)) (attempt + 1) st_next"
    by (subst step) (simp add: is_word_count_valid_def)
  have long: "1200 < ?wc \<Longrightarrow> attempt < max_generation_attempts gen \<Longrightarrow> ?run =
      generate_chapter_loop cfg env gen chapter_def model_id
        (add_word_count_emphasis user_prompt ?wc (word_count_target chapter_def)) (attempt + 1) st_next"
    by (subst step) (simp add: is_word_count_valid_def)
  have final: "attempt = max_generation_attempts gen \<or> is_word_count_valid ?wc \<Longrightarrow> ?run =
      (Inr \<lparr> chapter_content = content result, chapter_number = number chapter_def,
                   chapter_title = title chapter_def, word_count = ?wc,
                   chapter_tokens_used = tokens_used result, model_used = model result,
                   generation_attempts = attempt,
                   validation_passed = is_word_count_valid ?wc \<rparr>, st_next)"
    by (subst step) auto
  let ?short = "user_prompt @ ''\<newline>\<newline>**CRITICAL**: The previous attempt was too short (''
                   @ str_int ?wc
                   @ '' words). You MUST generate at least 800 words. Target is ''
                   @ str_int (word_count_target chapter_def)
                   @ '' words. Add more depth, examples, and explanations to reach the required length.''"
  let ?long = "user_prompt @ ''\<newline>\<newline>**CRITICAL**: The previous attempt was too long (''
                   @ str_int ?wc
                   @ '' words). You MUST stay under 1200 words. Target is ''
                   @ str_int (word_count_target chapter_def)
                   @ '' words. Be more concise and focused on core concepts.''"
  have pos: "0 < max_retries cfg" using assms(4) by (rule buffer_returns_positive)
  have sent: "length (requests st_next)
        < length (requests (snd (generate_chapter_loop cfg env gen chapter_def model_id q
            (attempt + 1) st_next)))
      \<and> req_prompt (requests (snd (generate_chapter_loop cfg env gen chapter_def model_id q
            (attempt + 1) st_next)) ! length (requests st_next)) = q"
    if "attempt < max_generation_attempts gen" for q
    using next_request_carries_prompt [where attempt = attempt and gen = gen and cfg = cfg
        and env = env and chapter_def = chapter_def and model_id = model_id and p = q
        and st = st_next]
      that assms(2) pos
    by (simp add: api_request_def chapter_request_def)
  show ?thesis
  proof (intro conjI impI)
    assume a: "?wc < 800 \<and> attempt < max_generation_attempts gen"
    then have eq: "?run = generate_chapter_loop cfg env gen chapter_def model_id ?short
        (attempt + 1) st_next"
      using short by (simp add: add_word_count_emphasis_def)
    show "?run = generate_chapter_loop cfg env gen chapter_def model_id ?short
        (attempt + 1) st_next" by (rule eq)
    show "length (requests st_next) < length (requests (snd ?run))"
      unfolding eq using sent [of ?short] a by blast
    show "req_prompt (requests (snd ?run) ! length (requests st_next)) = ?short"
      unfolding eq using sent [of ?short] a by blast
  next
    assume a: "1200 < ?wc \<and> attempt < max_generation_attempts gen"
    then have eq: "?run = generate_chapter_loop cfg env gen chapter_def model_id ?long
        (attempt + 1) st_next"
      using long by (simp add: add_word_count_emphasis_def)
    show "?run = generate_chapter_loop cfg env gen chapter_def model_id ?long
        (attempt + 1) st_next" by (rule eq)
    show "length (requests st_next) < length (requests (snd ?run))"
      unfolding eq using sent [of ?long] a by blast
    show "req_prompt (requests (snd ?run) ! length (requests st_next)) = ?long"
      unfolding eq using sent [of ?long] a by blast
  next
    assume a: "(?wc < 800 \<or> 1200 < ?wc) \<and> attempt = max_generation_attempts gen"
    then have r: "?run = (Inr \<lparr> chapter_content = content result, chapter_number = number chapter_def,
                   chapter_title = title chapter_def, word_count = ?wc,
                   chapter_tokens_used = tokens_used result, model_used = model result,
                   generation_attempts = attempt,
                   validation_passed = is_word_count_valid ?wc \<rparr>, st_next)"
      using final by blast
    show "raised ?run = None" by (simp add: r raised_def)
    show "map_option chapter_content (returned ?run) = Some (content result)"
      by (simp add: r returned_def)
    from a have "\<not> is_word_count_valid ?wc" by (auto simp: is_word_count_valid_def)
    then show "map_option validation_passed (returned ?run) = Some False"
      by (simp add: r returned_def)
  next
    assume a: "800 \<le> ?wc \<and> ?wc \<le> 1200"
    then have v: "is_word_count_valid ?wc" by (simp add: is_word_count_valid_def)
    then have r: "?run = (Inr \<lparr> chapter_content = content result, chapter_number = number chapter_def,
                   chapter_title = title chapter_def, word_count = ?wc,
                   chapter_tokens_used = tokens_used result, model_used = model result,
                   generation_attempts = attempt,
                   validation_passed = is_word_count_valid ?wc \<rparr>, st_next)"
      using final by blast
    show "map_option generation_attempts (returned ?run) = Some attempt"
      by (simp add: r returned_def)
    show "map_option validation_passed (returned ?run) = Some True"
      using v by (simp add: r returned_def)
  qed
qed

lemma retry_env_call:
  "generate_with_rate_limit_buffer default_config retry_env
      (chapter_request sample_generator MODEL_SONNET p) (after_calls k)
   = (Inr (result_of_response (sized_response (if k = 0 then 5 else if k = 1 then 1300 else 1000))),
      (after_calls k)\<lparr> api_calls := Suc k,
          requests := [api_request (chapter_request sample_generator MODEL_SONNET p)],
          total_tokens_used := 10 + int (if k = 0 then 5 else if k = 1 then 1300 else 1000),
          sleeps := [RATE_LIMIT_BUFFER] \<rparr>)"
  by (subst generate_success [where response = "sized_response (if k = 0 then 5 else if k = 1 then 1300 else 1000)"])
     (simp_all add: default_config_def retry_env_def after_calls_def initial_client_state_def
        sized_response_def)

lemma content_sized: "content (result_of_response (sized_response n)) = words_of ''a'' n"
  by (simp add: result_of_response_def sized_response_def)

lemma sample_generator_fields:
  "enforce_word_count sample_generator" "max_generation_attempts sample_generator = 3"
  by (simp_all add: sample_generator_def)

lemma sample_unit_target: "word_count_target sample_unit = 1000"
  by (simp add: sample_unit_def)

lemma not_isspace_star: "\<forall>c \<in> set ''*''. \<not> isspace c"
  by (simp add: isspace_def)

lemma str_split_spaces: "str_split (replicate n (CHR '' '')) = []"
  unfolding str_split_def by (induction n) simp_all

lemma sub_markdown_words_of_star: "sub_markdown_syntax (words_of ''*'' n) = replicate n (CHR '' '')"
  unfolding words_of_def sub_markdown_syntax_def markdown_syntax_chars_def
  by (induction n) simp_all

lemma sub_markdown_syntax_append:
  "sub_markdown_syntax (a @ b) = sub_markdown_syntax a @ sub_markdown_syntax b"
  by (simp add: sub_markdown_syntax_def)

lemma backtick_notin_star: "backtick \<notin> set (words_of ''*'' n)"
  using set_words_of [of "''*''" n] by (auto simp: backtick_def)

lemma chapter_count_starred: "chapter_count_words starred_text = 800"
proof -
  have "str_split (words_of ''a'' 790 @ words_of ''*'' 10)
      = replicate 790 ''a'' @ str_split (words_of ''*'' 10)"
    using not_isspace_a by (intro str_split_words_of) simp_all
  moreover have "str_split (words_of ''*'' 10 @ []) = replicate 10 ''*'' @ str_split []"
    using not_isspace_star by (intro str_split_words_of) simp_all
  ultimately show ?thesis
    by (simp add: chapter_count_words_def starred_text_def str_split_def)
qed

lemma validator_count_starred: "validator_count_words starred_text = 790"
proof -
  have nb: "backtick \<notin> set starred_text"
    using words_of_a_plain(1) [of 790] backtick_notin_star [of 10] by (simp add: starred_text_def)
  have "sub_markdown_syntax starred_text = words_of ''a'' 790 @ replicate 10 (CHR '' '')"
    using words_of_a_plain(2) [of 790]
    by (simp add: starred_text_def sub_markdown_syntax_append sub_markdown_words_of_star
          sub_markdown_syntax_id)
  moreover have "str_split (words_of ''a'' 790 @ replicate 10 (CHR '' ''))
      = replicate 790 ''a'' @ str_split (replicate 10 (CHR '' ''))"
    using not_isspace_a by (intro str_split_words_of) simp_all
  ultimately show ?thesis
    using nb
    by (simp add: validator_count_words_def Let_def sub_code_fences_id sub_inline_code_id
          no_backtick_no_fence no_backtick_no_inline str_split_spaces)
qed

theorem chapter_word_count_enforcement_witness:
  "enforce_word_count sample_generator
   \<and> returned (generate_with_rate_limit_buffer default_config retry_env
         (chapter_request sample_generator MODEL_SONNET ''Write.'') (after_calls 0))
       = Some (result_of_response (sized_response 5))
   \<and> generate_chapter_loop default_config retry_env sample_generator sample_unit MODEL_SONNET
         ''Write.'' 1 (after_calls 0)
       = generate_chapter_loop default_config retry_env sample_generator sample_unit MODEL_SONNET
           (''Write.'' @ ''\<newline>\<newline>**CRITICAL**: The previous attempt was too short (5 words). You MUST generate at least 800 words. Target is 1000 words. Add more depth, examples, and explanations to reach the required length.'')
           2
           (snd (generate_with_rate_limit_buffer default_config retry_env
              (chapter_request sample_generator MODEL_SONNET ''Write.'') (after_calls 0)))
   \<and> req_prompt
         (requests (snd (generate_chapter_loop default_config retry_env sample_generator
            sample_unit MODEL_SONNET ''Write.'' 1 (after_calls 0)))
          ! length (requests (snd (generate_with_rate_limit_buffer default_config retry_env
              (chapter_request sample_generator MODEL_SONNET ''Write.'') (after_calls 0)))))
       = ''Write.'' @ ''\<newline>\<newline>**CRITICAL**: The previous attempt was too short (5 words). You MUST generate at least 800 words. Target is 1000 words. Add more depth, examples, and explanations to reach the required length.''
   \<and> returned (generate_with_rate_limit_buffer default_config retry_env
         (chapter_request sample_generator MODEL_SONNET ''Write.'') (after_calls 1))
       = Some (result_of_response (sized_response 1300))
   \<and> generate_chapter_loop default_config retry_env sample_generator sample_unit MODEL_SONNET
         ''Write.'' 2 (after_calls 1)
       = generate_chapter_loop default_config retry_env sample_generator sample_unit MODEL_SONNET
           (''Write.'' @ ''\<newline>\<newline>**CRITICAL**: The previous attempt was too long (1300 words). You MUST stay under 1200 words. Target is 1000 words. Be more concise and focused on core concepts.'')
           3
           (snd (generate_with_rate_limit_buffer default_config retry_env
              (chapter_request sample_generator MODEL_SONNET ''Write.'') (after_calls 1)))
   \<and> req_prompt
         (requests (snd (generate_chapter_loop default_config retry_env sample_generator
            sample_unit MODEL_SONNET ''Write.'' 2 (after_calls 1)))
          ! length (requests (snd (generate_with_rate_limit_buffer default_config retry_env
              (chapter_request sample_generator MODEL_SONNET ''Write.'') (after_calls 1)))))
       = ''Write.'' @ ''\<newline>\<newline>**CRITICAL**: The previous attempt was too long (1300 words). You MUST stay under 1200 words. Target is 1000 words. Be more concise and focused on core concepts.''
   \<and> raised (generate_chapter_loop default_config retry_env sample_generator sample_unit
         MODEL_SONNET ''Write.'' 3 (after_calls 1)) = None
   \<and> map_option validation_passed
         (returned (generate_chapter_loop default_config retry_env sample_generator sample_unit
            MODEL_SONNET ''Write.'' 3 (after_calls 1))) = Some False
   \<and> returned (generate_with_rate_limit_buffer default_config retry_env
         (chapter_request sample_generator MODEL_SONNET ''Write.'') (after_calls 2))
       = Some (result_of_response (sized_response 1000))
   \<and> map_option generation_attempts
         (returned (generate_chapter_loop default_config retry_env sample_generator sample_unit
            MODEL_SONNET ''Write.'' 3 (after_calls 2))) = Some 3
   \<and> map_option validation_passed
         (returned (generate_chapter_loop default_config retry_env sample_generator sample_unit
            MODEL_SONNET ''Write.'' 3 (after_calls 2))) = Some True"
proof -
  let ?call = "\<lambda>k. generate_with_rate_limit_buffer default_config retry_env
      (chapter_request sample_generator MODEL_SONNET ''Write.'') (after_calls k)"
  have c0: "?call 0 = (Inr (result_of_response (sized_response 5)), snd (?call 0))"
    and c1: "?call 1 = (Inr (result_of_response (sized_response 1300)), snd (?call 1))"
    and c2: "?call 2 = (Inr (result_of_response (sized_response 1000)), snd (?call 2))"
    by (simp_all add: retry_env_call)
  have wc: "chapter_count_words (content (result_of_response (sized_response n))) = int n" for n
    by (simp add: content_sized chapter_count_words_of_a)
  note gen = sample_generator_fields
  have first: "chapter_count_words (content (result_of_response (sized_response 5))) < 800
      \<and> 1 < max_generation_attempts sample_generator"
    and second: "1200 < chapter_count_words (content (result_of_response (sized_response 1300)))
      \<and> 2 < max_generation_attempts sample_generator"
    and last_long: "(chapter_count_words (content (result_of_response (sized_response 1300))) < 800
        \<or> 1200 < chapter_count_words (content (result_of_response (sized_response 1300))))
      \<and> 3 = max_generation_attempts sample_generator"
    and last_good: "800 \<le> chapter_count_words (content (result_of_response (sized_response 1000)))
      \<and> chapter_count_words (content (result_of_response (sized_response 1000))) \<le> 1200"
    by (simp_all add: wc gen)
  have in1: "(1::int) \<le> 1" "1 \<le> max_generation_attempts sample_generator"
    and in2: "(1::int) \<le> 2" "2 \<le> max_generation_attempts sample_generator"
    and in3: "(1::int) \<le> 3" "3 \<le> max_generation_attempts sample_generator"
    by (simp_all add: gen)
  note t1 = chapter_word_count_enforcement [where chapter_def = sample_unit,
      OF gen(1) in1 c0, THEN conjunct1, THEN mp, OF first]
  note t2 = chapter_word_count_enforcement [where chapter_def = sample_unit,
      OF gen(1) in2 c1, THEN conjunct2, THEN conjunct1, THEN mp, OF second]
  note t3 = chapter_word_count_enforcement [where chapter_def = sample_unit,
      OF gen(1) in3 c1, THEN conjunct2, THEN conjunct2, THEN conjunct1, THEN mp, OF last_long]
  note t4 = chapter_word_count_enforcement [where chapter_def = sample_unit,
      OF gen(1) in3 c2, THEN conjunct2, THEN conjunct2, THEN conjunct2, THEN mp, OF last_good]
  note ev = wc sample_unit_target str_int_def str_nat.simps digits_def
  show ?thesis
    apply (intro conjI)
    subgoal by (rule gen(1))
    subgoal by (simp add: retry_env_call returned_def)
    subgoal using t1 [THEN conjunct1] by (simp add: ev)
    subgoal using t1 [THEN conjunct2, THEN conjunct2] by (simp add: ev)
    subgoal by (simp add: retry_env_call returned_def)
    subgoal using t2 [THEN conjunct1] by (simp add: ev)
    subgoal using t2 [THEN conjunct2, THEN conjunct2] by (simp add: ev)
    subgoal using t3 [THEN conjunct1] by simp
    subgoal using t3 [THEN conjunct2, THEN conjunct2] by simp
    subgoal by (simp add: retry_env_call returned_def)
    subgoal using t4 [THEN conjunct1] by simp
    subgoal using t4 [THEN conjunct2] by simp
    done
qed

subsection \<open>The two word counts\<close>

lemma generate_chapter_starred:
  "fst (generate_chapter default_config starred_env sample_generator sample_unit
      initial_client_state)
   = Inr \<lparr> chapter_content = starred_text, chapter_number = 2, chapter_title = ''Sensors'',
          word_count = 800, chapter_tokens_used = 10, model_used = MODEL_SONNET,
          generation_attempts = 1, validation_passed = True \<rparr>"
proof -
  have call: "generate_with_rate_limit_buffer default_config starred_env req initial_client_state
      = (Inr (result_of_response ((sized_response 0)\<lparr> response_text := starred_text \<rparr>)),
         initial_client_state\<lparr> api_calls := 1, requests := [api_request req],
           total_tokens_used := 10, sleeps := [RATE_LIMIT_BUFFER] \<rparr>)" for req
    by (subst generate_success [where response = "(sized_response 0)\<lparr> response_text := starred_text \<rparr>"])
       (simp_all add: default_config_def starred_env_def initial_client_state_def
          sized_response_def)
  show ?thesis
    by (simp add: generate_chapter_def get_model_for_task_def generate_chapter_loop.simps
          sample_generator_fields call result_of_response_def sized_response_def
          chapter_count_starred is_word_count_valid_def sample_unit_def Let_def)
qed

text \<open>
  C10. On a text in which neither code pattern matches and none of the characters
  \<open>#*_[]()!\<close> occurs, the generator's word count and the validator's word count are equal.
  On \<open>starred_text\<close> they differ (800 against 790): when the provider returns that text,
  \<open>generate_chapter\<close> returns it with \<open>validation_passed\<close> true, while \<open>validate_chapter\<close> on
  the same text reports the word count as too low.
\<close>

theorem word_counts_agree_on_plain_text_only:
  "(\<not> contains_code_fence s \<and> \<not> contains_inline_code s
      \<and> set s \<inter> set markdown_syntax_chars = {}
      \<longrightarrow> chapter_count_words s = validator_count_words s)
   \<and> chapter_count_words starred_text = 800
   \<and> validator_count_words starred_text = 790
   \<and> map_option chapter_content
         (returned (generate_chapter default_config starred_env sample_generator sample_unit
            initial_client_state)) = Some starred_text
   \<and> map_option validation_passed
         (returned (generate_chapter default_config starred_env sample_generator sample_unit
            initial_client_state)) = Some True
   \<and> filter mentions_word_count (errors (validate_chapter md_parse starred_text))
       = [''Word count too low: 790 (minimum 800)'']"
proof (intro conjI impI)
  assume "\<not> contains_code_fence s \<and> \<not> contains_inline_code s
      \<and> set s \<inter> set markdown_syntax_chars = {}"
  then show "chapter_count_words s = validator_count_words s"
    by (simp add: validator_count_words_plain chapter_count_words_def)
next
  show "chapter_count_words starred_text = 800" by (rule chapter_count_starred)
  show "validator_count_words starred_text = 790" by (rule validator_count_starred)
  show "map_option chapter_content
         (returned (generate_chapter default_config starred_env sample_generator sample_unit
            initial_client_state)) = Some starred_text"
    by (simp add: generate_chapter_starred returned_def)
  show "map_option validation_passed
         (returned (generate_chapter default_config starred_env sample_generator sample_unit
            initial_client_state)) = Some True"
    by (simp add: generate_chapter_starred returned_def)
  have a: "filter mentions_word_count (validate_markdown_syntax md_parse starred_text) = []"
    using syntax_no_word_count by (auto simp: filter_empty_conv)
  have b: "filter mentions_word_count (validate_structure starred_text) = []"
    using structure_no_word_count by (auto simp: filter_empty_conv)
  have c: "filter mentions_word_count (validate_reading_time t) = []" for t
    using reading_time_no_word_count by (auto simp: filter_empty_conv)
  have d: "validate_word_count 790 = [''Word count too low: 790 (minimum 800)'']"
    by (simp add: validate_word_count_def MIN_WORD_COUNT_def str_int_def str_nat.simps digits_def)
  show "filter mentions_word_count (errors (validate_chapter md_parse starred_text))
       = [''Word count too low: 790 (minimum 800)'']"
    by (simp add: validate_chapter_errors validator_count_starred a b c d
          mentions_word_count_def startswith_def)
qed

theorem word_counts_agree_on_plain_text_only_witness:
  "\<not> contains_code_fence (words_of ''a'' 3) \<and> \<not> contains_inline_code (words_of ''a'' 3)
   \<and> set (words_of ''a'' 3) \<inter> set markdown_syntax_chars = {}
   \<and> chapter_count_words (words_of ''a'' 3) = validator_count_words (words_of ''a'' 3)"
  using word_counts_agree_on_plain_text_only [of "words_of ''a'' 3"] words_of_a_plain [of 3]
  by (simp add: no_backtick_no_fence no_backtick_no_inline)

section \<open>Properties of the validator entry points\<close>























lemma sample_quiz_errors:
  "errors (validate_quiz sample_quiz lo hi) =
     (if 5 < lo then [''Too few questions: 5 (minimum '' @ str_int lo @ '')'']
      else if hi < 5 then [''Too many questions: 5 (maximum '' @ str_int hi @ '')'']
      else [])
     @ [''Question 1: missing 'question_text' field'',
        ''Question 2: missing 'options' field'',
        ''Question 3: missing 'correct_index' field'',
        ''Question 4: must have exactly 4 options (got 3)'',
        ''Question 4: correct_index must be 0-3 (got 9)'',
        ''Question 4: question_text is empty'',
        ''Question 4, option 1: option is empty'',
        ''Question 5: must have exactly 4 options (got 3)'',
        ''Question 5: correct_index must be 0-3 (got 9)'',
        ''Question 5: question_text is empty'',
        ''Question 5, option 1: option is empty'']"
  by (simp add: validate_quiz_def sample_quiz_def no_text_question_def no_options_question_def
        no_index_question_def bad_question_def Let_def
        strip_def lstrip_def rstrip_def isspace_def str_int_def str_nat.simps digits_def)

lemma sample_quiz_warnings:
  "warnings (validate_quiz sample_quiz lo hi) =
     [''Question 4: invalid difficulty 'tricky' (valid: ['easy', 'medium', 'hard'])'',
      ''Question 5: invalid difficulty 'tricky' (valid: ['easy', 'medium', 'hard'])'',
      ''Duplicate questions detected'']"
  by (simp add: validate_quiz_def sample_quiz_def no_text_question_def no_options_question_def
        no_index_question_def bad_question_def Let_def get_question_text_def
        valid_difficulties_def card_insert_if
        strip_def lstrip_def rstrip_def isspace_def str_int_def str_nat.simps digits_def)



end
